theory Spec2Isabelle
  imports Main "HOL-Library.Word"
begin

section \<open>The priority (ETNIP-1, type 64) transaction of web3-eth-accounts\<close>

text \<open>
  A shallow embedding of \<open>PriorityETNIP1Transaction\<close> (the dual-signature typed
  transaction). A \<open>Uint8Array\<close> is a list of 8-bit words, a \<open>bigint\<close> that the
  class stores is a natural number (every stored numeric field is the result of
  \<open>uint8ArrayToBigInt\<close> or the chain id of the registry), a \<open>bigint\<close> that a caller
  supplies is an \<open>int\<close>. A thrown \<open>Error\<close> is the \<open>Inl\<close> of a sum; the error kinds
  are those of the specification's taxonomy, and four more for messages that the
  taxonomy does not name (chain id mismatch, access list, address, unconvertible or
  ill-shaped input).
\<close>

subsection \<open>Bytes, integers and the codec\<close>

type_synonym byte = "8 word"

datatype error =
    MalformedEncoding
  | WrongTransactionType
  | WrongFieldCount
  | InvalidFieldEncoding
  | InvalidFieldShape
  | IntegerOverflow
  | FeeOrderingViolation
  | InvalidSignatureParity
  | HighSSignature
  | InvalidKeyLength
  | InvalidSignature
  | NotSigned
  | UnsupportedUpgrade
  | ChainIdMismatch
  | InvalidAccessList
  | InvalidAddress
  | InvalidInput

text \<open>Sequencing of fallible steps: the first throw ends the computation.\<close>

definition bnd :: "error + 'a \<Rightarrow> ('a \<Rightarrow> error + 'b) \<Rightarrow> error + 'b" where
  "bnd m f = (case m of Inl e \<Rightarrow> Inl e | Inr x \<Rightarrow> f x)"

text \<open>A decoded codec value: a byte string or a list of values.\<close>

datatype rlp = RBytes "byte list" | RList "rlp list"

text \<open>
  Modelled from the spec: \<open>uint8ArrayToBigInt\<close> (common/utils.ts, not under src/), the
  reading of "minimal-length big-endian byte strings (empty byte string for zero)": the
  big-endian value of the bytes, 0 for the empty array.
\<close>

definition uint8ArrayToBigInt :: "byte list \<Rightarrow> nat" where
  "uint8ArrayToBigInt bs = foldl (\<lambda>acc b. acc * 256 + unat b) 0 bs"

text \<open>
  Modelled from the spec: \<open>bigIntToUnpaddedUint8Array\<close> (common/utils.ts, not under src/):
  "All integers serialize as minimal-length big-endian byte strings (empty byte string
  for zero)".
\<close>

function bigIntToUnpaddedUint8Array :: "nat \<Rightarrow> byte list" where
  "bigIntToUnpaddedUint8Array n =
     (if n = 0 then [] else bigIntToUnpaddedUint8Array (n div 256) @ [of_nat (n mod 256)])"
  by pat_completeness auto
termination
  by (relation "measure id") auto

declare bigIntToUnpaddedUint8Array.simps [simp del]

text \<open>
  Modelled from the spec: \<open>RLP.encode\<close> of the codec library (not under src/): "byte
  strings and list lengths are prefixed per the standard short/long length-prefix
  rules". A single byte below 0x80 is its own encoding; a payload of at most 55 bytes
  is prefixed by 0x80 (string) or 0xc0 (list) plus its length; a longer one by 0xb7
  or 0xf7 plus the number of length bytes, then the big-endian length.
\<close>

definition encodeLength :: "nat \<Rightarrow> nat \<Rightarrow> byte list" where
  "encodeLength len offset =
     (if len < 56 then [of_nat (len + offset)]
      else (let lb = bigIntToUnpaddedUint8Array len
            in of_nat (offset + 55 + length lb) # lb))"

fun rlp_encode :: "rlp \<Rightarrow> byte list" where
  "rlp_encode (RBytes bs) =
     (case bs of
        [b] \<Rightarrow> if unat b < 128 then [b] else encodeLength 1 128 @ bs
      | _ \<Rightarrow> encodeLength (length bs) 128 @ bs)"
| "rlp_encode (RList xs) =
     (let payload = concat (map rlp_encode xs)
      in encodeLength (length payload) 192 @ payload)"

text \<open>
  Modelled from the spec: \<open>RLP.decode\<close> of the codec library (not under src/), the
  inverse of the encoding: "decode fails with a MalformedEncoding error on trailing bytes,
  truncated length prefixes, or non-canonical (overlong) length encodings". The first
  byte tells the kind and the length of an item: below 0x80 the byte is the string;
  up to 0xb7 a string of at most 55 bytes follows (a single byte below 0x80 must not be
  prefixed); up to 0xbf the big-endian length of a longer string follows, without
  leading zero; from 0xc0 the same for lists, whose payload is decoded item after item.
  \<open>None\<close> is the failure. The recursion is on a fuel that every call decrements;
  \<open>rlp_decode\<close> gives twice the length of the input (an item takes at least one
  byte), which is enough for every encoding of fewer than \<open>2^64\<close> bytes (lemma
  \<open>rlp_decode_encode\<close>). The empty input decodes to the empty byte string.
\<close>

fun decodeLength :: "byte list \<Rightarrow> nat option" where
  "decodeLength [] = None"
| "decodeLength (b # bs) = (if b = 0 then None else Some (uint8ArrayToBigInt (b # bs)))"

fun rlp_decode_item :: "nat \<Rightarrow> byte list \<Rightarrow> (rlp \<times> byte list) option"
  and rlp_decode_items :: "nat \<Rightarrow> byte list \<Rightarrow> rlp list option" where
  "rlp_decode_item 0 input = None"
| "rlp_decode_item (Suc fuel) [] = None"
| "rlp_decode_item (Suc fuel) (b # bs) =
     (let firstByte = unat b in
      if firstByte \<le> 0x7f then Some (RBytes [b], bs)
      else if firstByte \<le> 0xb7 then
        (let len = firstByte - 0x80 in
         if length bs < len then None
         else if len = 1 \<and> unat (hd bs) < 0x80 then None
         else Some (RBytes (take len bs), drop len bs))
      else if firstByte \<le> 0xbf then
        (let llength = firstByte - 0xb7 in
         if length bs < llength then None
         else case decodeLength (take llength bs) of
                None \<Rightarrow> None
              | Some len \<Rightarrow>
                  if len \<le> 55 \<or> length bs < llength + len then None
                  else Some (RBytes (take len (drop llength bs)), drop (llength + len) bs))
      else if firstByte \<le> 0xf7 then
        (let len = firstByte - 0xc0 in
         if length bs < len then None
         else case rlp_decode_items fuel (take len bs) of
                None \<Rightarrow> None
              | Some xs \<Rightarrow> Some (RList xs, drop len bs))
      else
        (let llength = firstByte - 0xf7 in
         if length bs < llength then None
         else case decodeLength (take llength bs) of
                None \<Rightarrow> None
              | Some len \<Rightarrow>
                  if len < 56 \<or> length bs < llength + len then None
                  else case rlp_decode_items fuel (take len (drop llength bs)) of
                         None \<Rightarrow> None
                       | Some xs \<Rightarrow> Some (RList xs, drop (llength + len) bs)))"
| "rlp_decode_items 0 input = None"
| "rlp_decode_items (Suc fuel) input =
     (if input = [] then Some []
      else case rlp_decode_item fuel input of
             None \<Rightarrow> None
           | Some (x, remainder) \<Rightarrow>
               (case rlp_decode_items fuel remainder of
                  None \<Rightarrow> None
                | Some xs \<Rightarrow> Some (x # xs)))"

definition rlp_decode :: "byte list \<Rightarrow> rlp option" where
  "rlp_decode input =
     (if input = [] then Some (RBytes [])
      else case rlp_decode_item (2 * length input) input of
             Some (x, []) \<Rightarrow> Some x
           | _ \<Rightarrow> None)"

subsection \<open>Caller-supplied field values\<close>

text \<open>
  The forms in which a field of the transaction data can be supplied: absent, a string,
  an integer-valued \<open>number\<close>, a \<open>bigint\<close>, a \<open>Uint8Array\<close>, or an array (which the
  not-array validation rejects).
\<close>

datatype input =
    Undef
  | Str string
  | Num int
  | BigInt int
  | Bytes "byte list"
  | Arr "rlp list"

definition hex_val :: "char \<Rightarrow> nat option" where
  "hex_val c =
     (let n = (of_char c :: nat)
      in if 48 \<le> n \<and> n \<le> 57 then Some (n - 48)
         else if 65 \<le> n \<and> n \<le> 70 then Some (n - 55)
         else if 97 \<le> n \<and> n \<le> 102 then Some (n - 87)
         else None)"

fun hex_digits :: "string \<Rightarrow> nat list option" where
  "hex_digits [] = Some []"
| "hex_digits (c # cs) =
     (case hex_val c of
        None \<Rightarrow> None
      | Some d \<Rightarrow> (case hex_digits cs of None \<Rightarrow> None | Some ds \<Rightarrow> Some (d # ds)))"

fun hex_pairs :: "nat list \<Rightarrow> byte list" where
  "hex_pairs (a # b # ds) = of_nat (16 * a + b) # hex_pairs ds"
| "hex_pairs _ = []"

text \<open>\<open>padToEven\<close>: a leading zero digit when the number of digits is odd.\<close>

definition padToEven :: "nat list \<Rightarrow> nat list" where
  "padToEven ds = (if odd (length ds) then 0 # ds else ds)"

text \<open>
  Modelled from the spec: the conversion of a plain array by \<open>toUint8Array\<close>
  (common/utils.ts, not under src/), which is \<open>Uint8Array.from\<close>: each element is its
  string form read as a number, 0 when that is not a number (nested arrays of more than
  one element print with commas).
\<close>

fun elem_to_byte :: "rlp \<Rightarrow> byte" where
  "elem_to_byte (RBytes [b]) = b"
| "elem_to_byte (RBytes _) = 0"
| "elem_to_byte (RList [x]) = elem_to_byte x"
| "elem_to_byte (RList _) = 0"

text \<open>
  Modelled from the spec: \<open>toUint8Array\<close> (common/utils.ts, not under src/), the byte
  form of a supplied field; "all numeric fields are non-negative integers". Absent gives
  the empty array, a \<open>Uint8Array\<close> itself, a string must be 0x-prefixed hex, a number
  must be a non-negative safe integer, a \<open>bigint\<close> must not be negative; numbers and
  bigints are written in hex, padded to an even number of digits, so that zero is the
  one byte 0x00 (the unit test's signed transaction has \<open>v: '0x0'\<close> for the bigint 0).
\<close>

definition intToBytes :: "nat \<Rightarrow> byte list" where
  "intToBytes n = (if n = 0 then [0] else bigIntToUnpaddedUint8Array n)"

fun toUint8Array :: "input \<Rightarrow> error + byte list" where
  "toUint8Array Undef = Inr []"
| "toUint8Array (Bytes bs) = Inr bs"
| "toUint8Array (Arr xs) = Inr (map elem_to_byte xs)"
| "toUint8Array (Str s) =
     (case s of
        c0 # cx # cs \<Rightarrow>
          if c0 = CHR ''0'' \<and> cx = CHR ''x'' then
            (case hex_digits cs of
               None \<Rightarrow> Inl InvalidInput
             | Some ds \<Rightarrow> Inr (hex_pairs (padToEven ds)))
          else Inl InvalidInput
      | _ \<Rightarrow> Inl InvalidInput)"
| "toUint8Array (Num n) =
     (if n < 0 \<or> n > 2 ^ 53 - 1 then Inl InvalidInput else Inr (intToBytes (nat n)))"
| "toUint8Array (BigInt n) =
     (if n < 0 then Inl InvalidInput else Inr (intToBytes (nat n)))"

text \<open>The idiom \<open>x === '' ? '0x' : x\<close> of the constructors.\<close>

definition emptyAs0x :: "input \<Rightarrow> input" where
  "emptyAs0x x = (if x = Str [] then Str ''0x'' else x)"

subsection \<open>The capability registry\<close>

datatype hardfork =
    Chainstart | Homestead | Dao | TangerineWhistle | SpuriousDragon | Byzantium
  | Constantinople | Petersburg | Istanbul | MuirGlacier | Berlin | London
  | ArrowGlacier | GrayGlacier | Merge | Shanghai

fun hardfork_rank :: "hardfork \<Rightarrow> nat" where
  "hardfork_rank Chainstart = 0"
| "hardfork_rank Homestead = 1"
| "hardfork_rank Dao = 2"
| "hardfork_rank TangerineWhistle = 3"
| "hardfork_rank SpuriousDragon = 4"
| "hardfork_rank Byzantium = 5"
| "hardfork_rank Constantinople = 6"
| "hardfork_rank Petersburg = 7"
| "hardfork_rank Istanbul = 8"
| "hardfork_rank MuirGlacier = 9"
| "hardfork_rank Berlin = 10"
| "hardfork_rank London = 11"
| "hardfork_rank ArrowGlacier = 12"
| "hardfork_rank GrayGlacier = 13"
| "hardfork_rank Merge = 14"
| "hardfork_rank Shanghai = 15"

record common =
  c_chainId :: nat
  c_hardfork :: hardfork
  c_eips :: "nat list"

text \<open>
  Modelled from the spec: the queries of \<open>Common\<close> (common/common.ts, not under src/):
  a chain identifier, a fork of a totally ordered enumeration and a set of active
  upgrade identifiers; "is upgrade X active is derivable from fork \<ge>
  declared-activation-fork OR explicit inclusion in the active-upgrade set".
\<close>

definition gteHardfork :: "common \<Rightarrow> hardfork \<Rightarrow> bool" where
  "gteHardfork c h = (hardfork_rank h \<le> hardfork_rank (c_hardfork c))"

definition activationFork :: "nat \<Rightarrow> hardfork option" where
  "activationFork eip =
     (if eip = 155 then Some SpuriousDragon
      else if eip = 2718 \<or> eip = 2930 then Some Berlin
      else if eip = 1559 then Some London
      else None)"

definition isActivatedEIP :: "common \<Rightarrow> nat \<Rightarrow> bool" where
  "isActivatedEIP c eip =
     (eip \<in> set (c_eips c) \<or>
      (case activationFork eip of None \<Rightarrow> False | Some h \<Rightarrow> gteHardfork c h))"

record txOptions =
  o_common :: "common option"
  o_freeze :: "bool option"

subsection \<open>Transaction data and the transaction object\<close>

text \<open>
  \<open>PriorityETNIP1TxData\<close>: every field optional. The access list is the nested
  array form \<open>[[address, [storageKey, ...]], ...]\<close>.
\<close>

record txData =
  d_chainId :: input
  d_nonce :: input
  d_maxPriorityFeePerGas :: input
  d_maxFeePerGas :: input
  d_gasLimit :: input
  d_to :: input
  d_value :: input
  d_data :: input
  d_accessList :: "rlp option"
  d_v :: input
  d_r :: input
  d_s :: input
  d_pV :: input
  d_pR :: input
  d_pS :: input

text \<open>
  The fields of \<open>BaseTransaction\<close>, then those the priority class adds. \<open>tx_frozen\<close> is
  what \<open>Object.isFrozen\<close> reads, \<open>tx_cache_hash\<close> is \<open>cache.hash\<close>.
\<close>

record baseTransaction =
  tx_type :: nat
  tx_txOptions :: txOptions
  tx_nonce :: nat
  tx_gasLimit :: nat
  tx_to :: "byte list option"
  tx_value :: nat
  tx_data :: "byte list"
  tx_v :: "nat option"
  tx_r :: "nat option"
  tx_s :: "nat option"
  tx_activeCapabilities :: "nat list"
  tx_cache_hash :: "byte list option"
  tx_frozen :: bool

record tx = baseTransaction +
  tx_common :: common
  tx_chainId :: nat
  tx_accessList :: "(byte list \<times> byte list list) list"
  tx_maxFeePerGas :: nat
  tx_maxPriorityFeePerGas :: nat
  tx_pV :: "nat option"
  tx_pR :: "nat option"
  tx_pS :: "nat option"

definition TRANSACTION_TYPE :: nat where
  "TRANSACTION_TYPE = 64"

definition TRANSACTION_TYPE_UINT8ARRAY :: "byte list" where
  "TRANSACTION_TYPE_UINT8ARRAY = [of_nat TRANSACTION_TYPE]"

definition MAX_INTEGER :: nat where
  "MAX_INTEGER = 2 ^ 256 - 1"

definition MAX_UINT64 :: nat where
  "MAX_UINT64 = 2 ^ 64 - 1"

definition SECP256K1_ORDER_DIV_2 :: nat where
  "SECP256K1_ORDER_DIV_2 =
     0x7fffffffffffffffffffffffffffffff5d576e7357a4501ddfe92f46681b20a0"

subsection \<open>The shared validation routines\<close>

text \<open>
  Modelled from the spec: \<open>validateBound256\<close>, in the code
  \<open>_validateCannotExceedMaxInteger(values, bits = 256, cannotEqual = false)\<close>
  (baseTransaction.ts, not under src/): "fails with IntegerOverflow if any value
  \<ge> 2^256", that is, if a value that is present exceeds \<open>MAX_INTEGER\<close>; a value
  that is \<open>undefined\<close> is skipped. With 64 bits the bound is \<open>MAX_UINT64\<close>, and
  \<open>cannotEqual\<close> excludes the bound itself.
\<close>

fun validateCannotExceedMaxInteger :: "nat option list \<Rightarrow> nat \<Rightarrow> bool \<Rightarrow> error + unit" where
  "validateCannotExceedMaxInteger [] bits cannotEqual = Inr ()"
| "validateCannotExceedMaxInteger (None # vs) bits cannotEqual =
     (if bits = 64 \<or> bits = 256 then validateCannotExceedMaxInteger vs bits cannotEqual
      else Inl InvalidInput)"
| "validateCannotExceedMaxInteger (Some n # vs) bits cannotEqual =
     (if bits = 64 then
        (if (if cannotEqual then n \<ge> MAX_UINT64 else n > MAX_UINT64) then Inl IntegerOverflow
         else validateCannotExceedMaxInteger vs bits cannotEqual)
      else if bits = 256 then
        (if (if cannotEqual then n \<ge> MAX_INTEGER else n > MAX_INTEGER) then Inl IntegerOverflow
         else validateCannotExceedMaxInteger vs bits cannotEqual)
      else Inl InvalidInput)"

text \<open>
  Modelled from the spec: \<open>validateNoLeadingZeroes\<close> (web3-validator, not under
  src/): "fails with InvalidFieldEncoding if any declared field's byte-serialized form
  has a leading zero byte"; a field that is absent or empty passes.
\<close>

fun hasLeadingZero :: "input \<Rightarrow> bool" where
  "hasLeadingZero (Bytes (b # bs)) = (b = 0)"
| "hasLeadingZero _ = False"

fun validateNoLeadingZeroes :: "input list \<Rightarrow> error + unit" where
  "validateNoLeadingZeroes [] = Inr ()"
| "validateNoLeadingZeroes (x # xs) =
     (if hasLeadingZero x then Inl InvalidFieldEncoding else validateNoLeadingZeroes xs)"

text \<open>
  Modelled from the spec: \<open>_validateNotArray\<close> (baseTransaction.ts, not under src/):
  "fails with InvalidFieldShape if a scalar field was supplied as a composite/list
  value". It is given the fields to examine; called on the whole transaction data it
  examines the keys of the base class's list that this transaction data has (nonce,
  gasLimit, to, value, data, v, r, s, maxFeePerGas, chainId).
\<close>

fun isArray :: "input \<Rightarrow> bool" where
  "isArray (Arr xs) = True"
| "isArray _ = False"

fun validateNotArray :: "input list \<Rightarrow> error + unit" where
  "validateNotArray [] = Inr ()"
| "validateNotArray (x # xs) =
     (if isArray x then Inl InvalidFieldShape else validateNotArray xs)"

text \<open>
  Modelled from the spec: \<open>getAccessListData\<close> and \<open>verifyAccessList\<close> (utils.ts, not
  under src/): the access list is an "ordered sequence of [address (20 bytes),
  [storageKey (32 bytes), ...]]"; any other shape or length is rejected.
\<close>

fun storageSlots :: "rlp list \<Rightarrow> error + byte list list" where
  "storageSlots [] = Inr []"
| "storageSlots (RBytes k # ks) =
     (if length k \<noteq> 32 then Inl InvalidAccessList
      else bnd (storageSlots ks) (\<lambda>r. Inr (k # r)))"
| "storageSlots (RList ys # ks) = Inl InvalidAccessList"

fun accessListItems :: "rlp list \<Rightarrow> error + (byte list \<times> byte list list) list" where
  "accessListItems [] = Inr []"
| "accessListItems (RList [RBytes a, RList ks] # items) =
     (if length a \<noteq> 20 then Inl InvalidAccessList
      else bnd (storageSlots ks) (\<lambda>slots.
           bnd (accessListItems items) (\<lambda>r. Inr ((a, slots) # r))))"
| "accessListItems (item # items) = Inl InvalidAccessList"

fun verifyAccessList :: "rlp \<Rightarrow> error + (byte list \<times> byte list list) list" where
  "verifyAccessList (RList items) = accessListItems items"
| "verifyAccessList (RBytes bs) = Inl InvalidAccessList"

text \<open>
  Modelled from the spec: \<open>_getCommon(common, chainId)\<close> (baseTransaction.ts, not under
  src/), by which "a transaction holds a reference to one registry instance": with a chain
  id supplied, a supplied registry must have the same chain id and is used, and
  without a registry one is made for that chain at \<open>DEFAULT_HARDFORK\<close> (\<open>'london'\<close>
  in this class); without a chain id the supplied registry is used, or the default
  chain at the default fork.
\<close>

definition DEFAULT_HARDFORK :: hardfork where
  "DEFAULT_HARDFORK = London"

definition getCommon :: "common option \<Rightarrow> input \<Rightarrow> error + common" where
  "getCommon c chainId =
     (if chainId \<noteq> Undef then
        bnd (toUint8Array chainId) (\<lambda>chainIdB.
          let chainIdBigInt = uint8ArrayToBigInt chainIdB
          in case c of
               Some cm \<Rightarrow> if c_chainId cm \<noteq> chainIdBigInt then Inl ChainIdMismatch else Inr cm
             | None \<Rightarrow>
                 Inr \<lparr>c_chainId = chainIdBigInt, c_hardfork = DEFAULT_HARDFORK, c_eips = []\<rparr>)
      else
        (case c of
           Some cm \<Rightarrow> Inr cm
         | None \<Rightarrow> Inr \<lparr>c_chainId = 1, c_hardfork = DEFAULT_HARDFORK, c_eips = []\<rparr>))"

text \<open>
  Modelled from the spec: the constructor of \<open>BaseTransaction\<close> (baseTransaction.ts,
  not under src/), the "shared field set" with its range checks, on the pattern that the
  priority constructor repeats for \<open>pV\<close>, \<open>pR\<close>, \<open>pS\<close>: each
  field is converted to bytes, a signature component of no bytes is \<open>undefined\<close>, a
  recipient must have 20 bytes, and the bounds are checked: 256 bits for value, r and s,
  64 bits for the gas limit and, exclusive, for the nonce.
\<close>

definition sigComponent :: "byte list \<Rightarrow> nat option" where
  "sigComponent bs = (if length bs > 0 then Some (uint8ArrayToBigInt bs) else None)"

definition baseConstructor :: "txData \<Rightarrow> txOptions \<Rightarrow> error + baseTransaction" where
  "baseConstructor txData opts =
     bnd (toUint8Array (emptyAs0x (d_to txData))) (\<lambda>toB.
     bnd (toUint8Array (emptyAs0x (d_v txData))) (\<lambda>vB.
     bnd (toUint8Array (emptyAs0x (d_r txData))) (\<lambda>rB.
     bnd (toUint8Array (emptyAs0x (d_s txData))) (\<lambda>sB.
     bnd (toUint8Array (emptyAs0x (d_nonce txData))) (\<lambda>nonceB.
     bnd (toUint8Array (emptyAs0x (d_gasLimit txData))) (\<lambda>gasLimitB.
     bnd (if length toB > 0
          then (if length toB = 20 then Inr (Some toB) else Inl InvalidAddress)
          else Inr None) (\<lambda>to.
     bnd (toUint8Array (emptyAs0x (d_value txData))) (\<lambda>valueB.
     bnd (toUint8Array (emptyAs0x (d_data txData))) (\<lambda>dataB.
       let this = \<lparr>tx_type = TRANSACTION_TYPE,
                   tx_txOptions = opts,
                   tx_nonce = uint8ArrayToBigInt nonceB,
                   tx_gasLimit = uint8ArrayToBigInt gasLimitB,
                   tx_to = to,
                   tx_value = uint8ArrayToBigInt valueB,
                   tx_data = dataB,
                   tx_v = sigComponent vB,
                   tx_r = sigComponent rB,
                   tx_s = sigComponent sB,
                   tx_activeCapabilities = [],
                   tx_cache_hash = None,
                   tx_frozen = False\<rparr>
       in
     bnd (validateCannotExceedMaxInteger
            [Some (tx_value this), tx_r this, tx_s this] 256 False) (\<lambda>_.
     bnd (validateCannotExceedMaxInteger [Some (tx_gasLimit this)] 64 False) (\<lambda>_.
     bnd (validateCannotExceedMaxInteger [Some (tx_nonce this)] 64 True) (\<lambda>_.
       Inr this))))))))))))"

subsection \<open>Construction\<close>

text \<open>
  The constructor up to the not-array validation (lines 191 to 231 of the class). The
  object under construction is \<open>this\<close>; its fields \<open>pV\<close>, \<open>pR\<close>, \<open>pS\<close> are
  assigned only after the call of \<open>_validateCannotExceedMaxInteger\<close>, which reads
  \<open>this.pR\<close> and \<open>this.pS\<close> while they are still \<open>undefined\<close>.
\<close>

definition constructFields :: "txData \<Rightarrow> txOptions \<Rightarrow> error + tx" where
  "constructFields txData opts =
     bnd (baseConstructor txData opts) (\<lambda>base.
     bnd (getCommon (o_common opts) (d_chainId txData)) (\<lambda>cm.
       if \<not> isActivatedEIP cm 1559 then Inl UnsupportedUpgrade
       else
     bnd (verifyAccessList
            (case d_accessList txData of None \<Rightarrow> RList [] | Some al \<Rightarrow> al)) (\<lambda>accessList.
     bnd (toUint8Array (emptyAs0x (d_maxFeePerGas txData))) (\<lambda>maxFeeB.
     bnd (toUint8Array (emptyAs0x (d_maxPriorityFeePerGas txData))) (\<lambda>maxPrioB.
       let this = \<lparr>tx_type = tx_type base,
                   tx_txOptions = tx_txOptions base,
                   tx_nonce = tx_nonce base,
                   tx_gasLimit = tx_gasLimit base,
                   tx_to = tx_to base,
                   tx_value = tx_value base,
                   tx_data = tx_data base,
                   tx_v = tx_v base,
                   tx_r = tx_r base,
                   tx_s = tx_s base,
                   tx_activeCapabilities = tx_activeCapabilities base @ [1559, 2718, 2930],
                   tx_cache_hash = tx_cache_hash base,
                   tx_frozen = tx_frozen base,
                   tx_common = cm,
                   tx_chainId = c_chainId cm,
                   tx_accessList = accessList,
                   tx_maxFeePerGas = uint8ArrayToBigInt maxFeeB,
                   tx_maxPriorityFeePerGas = uint8ArrayToBigInt maxPrioB,
                   tx_pV = None,
                   tx_pR = None,
                   tx_pS = None\<rparr>
       in
     bnd (validateCannotExceedMaxInteger
            [Some (tx_maxFeePerGas this), Some (tx_maxPriorityFeePerGas this),
             tx_pR this, tx_pS this] 256 False) (\<lambda>_.
     bnd (toUint8Array (emptyAs0x (d_pV txData))) (\<lambda>pvB.
     bnd (toUint8Array (emptyAs0x (d_pR txData))) (\<lambda>prB.
     bnd (toUint8Array (emptyAs0x (d_pS txData))) (\<lambda>psB.
       let this = this\<lparr>tx_pV := sigComponent pvB,
                        tx_pR := sigComponent prB,
                        tx_pS := sigComponent psB\<rparr>
       in
     bnd (validateNotArray
            [d_nonce txData, d_gasLimit txData, d_to txData, d_value txData, d_data txData,
             d_v txData, d_r txData, d_s txData, d_maxFeePerGas txData, d_chainId txData]) (\<lambda>_.
       Inr this))))))))))"

definition checkGasLimitTimesMaxFee :: "tx \<Rightarrow> error + unit" where
  "checkGasLimitTimesMaxFee this =
     (if tx_gasLimit this * tx_maxFeePerGas this > MAX_INTEGER then Inl IntegerOverflow
      else Inr ())"

definition checkFeeOrdering :: "tx \<Rightarrow> error + unit" where
  "checkFeeOrdering this =
     (if tx_maxFeePerGas this < tx_maxPriorityFeePerGas this then Inl FeeOrderingViolation
      else Inr ())"

definition validateYParity :: "tx \<Rightarrow> error + unit" where
  "validateYParity this =
     (if tx_v this \<noteq> None \<and> tx_v this \<noteq> Some 0 \<and> tx_v this \<noteq> Some 1
      then Inl InvalidSignatureParity
      else if tx_pV this \<noteq> None \<and> tx_pV this \<noteq> Some 0 \<and> tx_pV this \<noteq> Some 1
      then Inl InvalidSignatureParity
      else Inr ())"

definition exceedsHalfOrder :: "nat option \<Rightarrow> bool" where
  "exceedsHalfOrder x = (case x of None \<Rightarrow> False | Some n \<Rightarrow> n > SECP256K1_ORDER_DIV_2)"

definition validateHighS :: "tx \<Rightarrow> error + unit" where
  "validateHighS this =
     (if gteHardfork (tx_common this) Homestead \<and> exceedsHalfOrder (tx_s this)
      then Inl HighSSignature
      else if gteHardfork (tx_common this) Homestead \<and> exceedsHalfOrder (tx_pS this)
      then Inl HighSSignature
      else Inr ())"

definition freezeOption :: "txOptions \<Rightarrow> bool" where
  "freezeOption opts = (case o_freeze opts of None \<Rightarrow> True | Some f \<Rightarrow> f)"

text \<open>The constructor: \<open>new PriorityETNIP1Transaction(txData, opts)\<close>.\<close>

definition PriorityETNIP1Transaction :: "txData \<Rightarrow> txOptions \<Rightarrow> error + tx" where
  "PriorityETNIP1Transaction txData opts =
     bnd (constructFields txData opts) (\<lambda>this.
     bnd (checkGasLimitTimesMaxFee this) (\<lambda>_.
     bnd (checkFeeOrdering this) (\<lambda>_.
     bnd (validateYParity this) (\<lambda>_.
     bnd (validateHighS this) (\<lambda>_.
       Inr (if freezeOption opts then this\<lparr>tx_frozen := True\<rparr> else this))))))"

definition fromTxData :: "txData \<Rightarrow> txOptions \<Rightarrow> error + tx" where
  "fromTxData txData opts = PriorityETNIP1Transaction txData opts"

text \<open>
  Array destructuring: a position past the end of the array is \<open>undefined\<close>. A byte
  string of the decoded list is a \<open>Uint8Array\<close>, a nested list an array.
\<close>

definition valueAt :: "rlp list \<Rightarrow> nat \<Rightarrow> input" where
  "valueAt values i =
     (if i < length values
      then (case values ! i of RBytes bs \<Rightarrow> Bytes bs | RList xs \<Rightarrow> Arr xs)
      else Undef)"

text \<open>
  \<open>x !== undefined ? uint8ArrayToBigInt(x) : undefined\<close>, for a byte string; the chain
  id, converted without the test, is never \<open>undefined\<close> in an array of nine entries.
\<close>

fun toBigIntOrUndefined :: "input \<Rightarrow> input" where
  "toBigIntOrUndefined (Bytes bs) = BigInt (int (uint8ArrayToBigInt bs))"
| "toBigIntOrUndefined x = x"

text \<open>\<open>fromValuesArray\<close> after its length check.\<close>

definition fromValuesArrayFields :: "rlp list \<Rightarrow> txOptions \<Rightarrow> error + tx" where
  "fromValuesArrayFields values opts =
     (let chainId = valueAt values 0;
          nonce = valueAt values 1;
          maxPriorityFeePerGas = valueAt values 2;
          maxFeePerGas = valueAt values 3;
          gasLimit = valueAt values 4;
          to = valueAt values 5;
          val = valueAt values 6;
          dat = valueAt values 7;
          accessList = (if 8 < length values then Some (values ! 8) else None);
          v = valueAt values 9;
          r = valueAt values 10;
          s = valueAt values 11;
          pV = valueAt values 12;
          pR = valueAt values 13;
          pS = valueAt values 14
      in
        bnd (validateNotArray [chainId, v]) (\<lambda>_.
        bnd (validateNoLeadingZeroes
               [nonce, maxPriorityFeePerGas, maxFeePerGas, gasLimit, val,
                v, r, s, pV, pR, pS]) (\<lambda>_.
          PriorityETNIP1Transaction
            \<lparr>d_chainId = toBigIntOrUndefined chainId,
             d_nonce = nonce,
             d_maxPriorityFeePerGas = maxPriorityFeePerGas,
             d_maxFeePerGas = maxFeePerGas,
             d_gasLimit = gasLimit,
             d_to = to,
             d_value = val,
             d_data = dat,
             d_accessList = Some (case accessList of None \<Rightarrow> RList [] | Some al \<Rightarrow> al),
             d_v = toBigIntOrUndefined v,
             d_r = r,
             d_s = s,
             d_pV = toBigIntOrUndefined pV,
             d_pR = pR,
             d_pS = pS\<rparr>
            opts)))"

definition fromValuesArray :: "rlp list \<Rightarrow> txOptions \<Rightarrow> error + tx" where
  "fromValuesArray values opts =
     (if length values \<noteq> 9 \<and> length values \<noteq> 15 then Inl WrongFieldCount
      else fromValuesArrayFields values opts)"

text \<open>
  \<open>fromSerializedTx\<close>: the first byte must be the type byte, the rest must decode to
  a list, which \<open>fromValuesArray\<close> receives.
\<close>

definition fromSerializedTx :: "byte list \<Rightarrow> txOptions \<Rightarrow> error + tx" where
  "fromSerializedTx serialized opts =
     (if take 1 serialized \<noteq> TRANSACTION_TYPE_UINT8ARRAY then Inl WrongTransactionType
      else case rlp_decode (drop 1 serialized) of
             None \<Rightarrow> Inl MalformedEncoding
           | Some (RBytes bs) \<Rightarrow> Inl InvalidInput
           | Some (RList values) \<Rightarrow> fromValuesArray values opts)"

subsection \<open>Fees, raw values and serialization\<close>

definition getUpfrontCost :: "tx \<Rightarrow> int \<Rightarrow> int" where
  "getUpfrontCost this baseFee =
     (let prio = int (tx_maxPriorityFeePerGas this);
          maxBase = int (tx_maxFeePerGas this) - baseFee;
          inclusionFeePerGas = (if prio < maxBase then prio else maxBase);
          gasPrice = inclusionFeePerGas + baseFee
      in int (tx_gasLimit this) * gasPrice + int (tx_value this))"

definition optionalBigInt :: "nat option \<Rightarrow> byte list" where
  "optionalBigInt x = (case x of None \<Rightarrow> [] | Some n \<Rightarrow> bigIntToUnpaddedUint8Array n)"

definition accessListValue :: "(byte list \<times> byte list list) list \<Rightarrow> rlp" where
  "accessListValue al = RList (map (\<lambda>(a, ks). RList [RBytes a, RList (map RBytes ks)]) al)"

definition raw :: "tx \<Rightarrow> rlp list" where
  "raw this =
     [RBytes (bigIntToUnpaddedUint8Array (tx_chainId this)),
      RBytes (bigIntToUnpaddedUint8Array (tx_nonce this)),
      RBytes (bigIntToUnpaddedUint8Array (tx_maxPriorityFeePerGas this)),
      RBytes (bigIntToUnpaddedUint8Array (tx_maxFeePerGas this)),
      RBytes (bigIntToUnpaddedUint8Array (tx_gasLimit this)),
      RBytes (case tx_to this of None \<Rightarrow> [] | Some a \<Rightarrow> a),
      RBytes (bigIntToUnpaddedUint8Array (tx_value this)),
      RBytes (tx_data this),
      accessListValue (tx_accessList this),
      RBytes (optionalBigInt (tx_v this)),
      RBytes (optionalBigInt (tx_r this)),
      RBytes (optionalBigInt (tx_s this)),
      RBytes (optionalBigInt (tx_pV this)),
      RBytes (optionalBigInt (tx_pR this)),
      RBytes (optionalBigInt (tx_pS this))]"

definition serialize :: "tx \<Rightarrow> byte list" where
  "serialize this = TRANSACTION_TYPE_UINT8ARRAY @ rlp_encode (RList (raw this))"

text \<open>
  The digest \<open>keccak256\<close>, the recovery \<open>ecrecover\<close> (\<open>None\<close> when it throws) and the
  signing primitive \<open>secp256k1.sign\<close> (its recovery bit and its 64 compact bytes,
  \<open>None\<close> when it throws) belong to external libraries and are parameters.
\<close>

record crypto =
  keccak256 :: "byte list \<Rightarrow> byte list"
  ecrecover :: "byte list \<Rightarrow> nat \<Rightarrow> byte list \<Rightarrow> byte list \<Rightarrow> byte list option"
  secp256k1_sign :: "byte list \<Rightarrow> byte list \<Rightarrow> (nat \<times> byte list) option"

definition getMessageToSign :: "crypto \<Rightarrow> tx \<Rightarrow> bool \<Rightarrow> byte list" where
  "getMessageToSign cr this hashMessage =
     (let base = take 9 (raw this);
          message = TRANSACTION_TYPE_UINT8ARRAY @ rlp_encode (RList base)
      in if hashMessage then keccak256 cr message else message)"

definition isSigned :: "tx \<Rightarrow> bool" where
  "isSigned this =
     (if tx_v this = None \<or> tx_r this = None \<or> tx_s this = None \<or>
         tx_pV this = None \<or> tx_pR this = None \<or> tx_pS this = None
      then False else True)"

subsection \<open>Hash, recovery and signing\<close>

text \<open>\<open>hash()\<close> returns the digest and the object, whose cache it may have filled.\<close>

definition hash :: "crypto \<Rightarrow> tx \<Rightarrow> error + (byte list \<times> tx)" where
  "hash cr this =
     (if \<not> isSigned this then Inl NotSigned
      else if tx_frozen this then
        (case tx_cache_hash this of
           None \<Rightarrow>
             (let h = keccak256 cr (serialize this)
              in Inr (h, this\<lparr>tx_cache_hash := Some h\<rparr>))
         | Some h \<Rightarrow> Inr (h, this))
      else Inr (keccak256 cr (serialize this), this))"

definition getMessageToVerifySignature :: "crypto \<Rightarrow> tx \<Rightarrow> byte list" where
  "getMessageToVerifySignature cr this = getMessageToSign cr this True"

text \<open>
  One call of \<open>ecrecover\<close> on a signature triple; the components are present where
  it is called (the non-null assertions of the source, after \<open>isSigned\<close>).
\<close>

definition recoverWith :: "crypto \<Rightarrow> byte list \<Rightarrow> nat option \<Rightarrow> nat option \<Rightarrow> nat option \<Rightarrow> byte list option" where
  "recoverWith cr msgHash v r s =
     ecrecover cr msgHash (the v + 27)
       (bigIntToUnpaddedUint8Array (the r)) (bigIntToUnpaddedUint8Array (the s))"

definition getSenderPublicKey :: "crypto \<Rightarrow> tx \<Rightarrow> error + byte list" where
  "getSenderPublicKey cr this =
     (if \<not> isSigned this then Inl NotSigned
      else
        (let msgHash = getMessageToVerifySignature cr this
         in bnd (validateHighS this) (\<lambda>_.
              case recoverWith cr msgHash (tx_v this) (tx_r this) (tx_s this) of
                None \<Rightarrow> Inl InvalidSignature
              | Some key \<Rightarrow> Inr key)))"

definition getSenderAndPriorityPublicKey :: "crypto \<Rightarrow> tx \<Rightarrow> error + (byte list \<times> byte list)" where
  "getSenderAndPriorityPublicKey cr this =
     (if \<not> isSigned this then Inl NotSigned
      else
        (let msgHash = getMessageToVerifySignature cr this
         in bnd (validateHighS this) (\<lambda>_.
              case recoverWith cr msgHash (tx_v this) (tx_r this) (tx_s this) of
                None \<Rightarrow> Inl InvalidSignature
              | Some key \<Rightarrow>
                  (case recoverWith cr msgHash (tx_pV this) (tx_pR this) (tx_pS this) of
                     None \<Rightarrow> Inl InvalidSignature
                   | Some pkey \<Rightarrow> Inr (key, pkey)))))"

text \<open>
  \<open>__ecsign(msgHash, privateKey)\<close> without a chain id: \<open>v = recovery + 27\<close>, \<open>r\<close> and
  \<open>s\<close> are the two halves of the compact signature.
\<close>

definition ecsign :: "crypto \<Rightarrow> byte list \<Rightarrow> byte list \<Rightarrow> (nat \<times> byte list \<times> byte list) option" where
  "ecsign cr msgHash privateKey =
     (case secp256k1_sign cr msgHash privateKey of
        None \<Rightarrow> None
      | Some (recovery, signatureBytes) \<Rightarrow>
          Some (recovery + 27, take 32 signatureBytes, take 32 (drop 32 signatureBytes)))"

definition processSignatures ::
  "tx \<Rightarrow> nat \<Rightarrow> byte list \<Rightarrow> byte list \<Rightarrow> nat \<Rightarrow> byte list \<Rightarrow> byte list \<Rightarrow> error + tx" where
  "processSignatures this v r s pV pR pS =
     (let opts = (tx_txOptions this)\<lparr>o_common := Some (tx_common this)\<rparr>
      in fromTxData
           \<lparr>d_chainId = BigInt (int (tx_chainId this)),
            d_nonce = BigInt (int (tx_nonce this)),
            d_maxPriorityFeePerGas = BigInt (int (tx_maxPriorityFeePerGas this)),
            d_maxFeePerGas = BigInt (int (tx_maxFeePerGas this)),
            d_gasLimit = BigInt (int (tx_gasLimit this)),
            d_to = (case tx_to this of None \<Rightarrow> Undef | Some a \<Rightarrow> Bytes a),
            d_value = BigInt (int (tx_value this)),
            d_data = Bytes (tx_data this),
            d_accessList = Some (accessListValue (tx_accessList this)),
            d_v = BigInt (int v - 27),
            d_r = BigInt (int (uint8ArrayToBigInt r)),
            d_s = BigInt (int (uint8ArrayToBigInt s)),
            d_pV = BigInt (int pV - 27),
            d_pR = BigInt (int (uint8ArrayToBigInt pR)),
            d_pS = BigInt (int (uint8ArrayToBigInt pS))\<rparr>
           opts)"

definition EIP155ReplayProtection :: nat where
  "EIP155ReplayProtection = 155"

definition supports :: "tx \<Rightarrow> nat \<Rightarrow> bool" where
  "supports this capability = (capability \<in> set (tx_activeCapabilities this))"

text \<open>
  \<open>sign(privateKey, priorityPrivateKey)\<close> returns the source object as the call
  leaves it (the replay-protection hack pushes onto \<open>activeCapabilities\<close> and removes
  the entry again after a successful signing) and the signed transaction or the error. A
  throw of the signing primitive is \<open>InvalidSignature\<close> here.
\<close>

definition sign :: "crypto \<Rightarrow> tx \<Rightarrow> byte list \<Rightarrow> byte list option \<Rightarrow> tx \<times> (error + tx)" where
  "sign cr this privateKey priorityPrivateKey =
     (case priorityPrivateKey of
        None \<Rightarrow> (this, Inl InvalidKeyLength)
      | Some priorityKey \<Rightarrow>
          if length privateKey \<noteq> 32 \<or> length priorityKey \<noteq> 32
          then (this, Inl InvalidKeyLength)
          else
            (let hackApplied =
                   (tx_type this = 0 \<and> gteHardfork (tx_common this) SpuriousDragon \<and>
                    \<not> supports this EIP155ReplayProtection);
                 this1 =
                   (if hackApplied
                    then this\<lparr>tx_activeCapabilities :=
                                 tx_activeCapabilities this @ [EIP155ReplayProtection]\<rparr>
                    else this);
                 msgHash = getMessageToSign cr this1 True
             in case ecsign cr msgHash privateKey of
                  None \<Rightarrow> (this1, Inl InvalidSignature)
                | Some (v, r, s) \<Rightarrow>
                    (case ecsign cr msgHash priorityKey of
                       None \<Rightarrow> (this1, Inl InvalidSignature)
                     | Some (pV, pR, pS) \<Rightarrow>
                         (case processSignatures this1 v r s pV pR pS of
                            Inl e \<Rightarrow> (this1, Inl e)
                          | Inr signedTx \<Rightarrow>
                              (if hackApplied
                               then this1\<lparr>tx_activeCapabilities :=
                                            remove1 EIP155ReplayProtection
                                              (tx_activeCapabilities this1)\<rparr>
                               else this1,
                               Inr signedTx)))))"

subsection \<open>The fixtures of the unit test\<close>

text \<open>
  The registry of etnip1.test.ts (chain id 4 at London), the default options with it,
  and the empty transaction data \<open>{}\<close>.
\<close>

definition testCommon :: common where
  "testCommon = \<lparr>c_chainId = 4, c_hardfork = London, c_eips = []\<rparr>"

definition testOpts :: txOptions where
  "testOpts = \<lparr>o_common = Some testCommon, o_freeze = None\<rparr>"

definition emptyTxData :: txData where
  "emptyTxData =
     \<lparr>d_chainId = Undef, d_nonce = Undef, d_maxPriorityFeePerGas = Undef,
      d_maxFeePerGas = Undef, d_gasLimit = Undef, d_to = Undef, d_value = Undef,
      d_data = Undef, d_accessList = None, d_v = Undef, d_r = Undef, d_s = Undef,
      d_pV = Undef, d_pR = Undef, d_pS = Undef\<rparr>"

text \<open>The transaction data of the test \<open>getUpfrontCost()\<close> and what is built from it.\<close>

definition upfrontCostData :: txData where
  "upfrontCostData =
     emptyTxData\<lparr>d_maxFeePerGas := Num 10, d_maxPriorityFeePerGas := Num 8,
                  d_gasLimit := Num 100, d_value := Num 6\<rparr>"

definition upfrontCostTx :: tx where
  "upfrontCostTx =
     \<lparr>tx_type = 64, tx_txOptions = testOpts, tx_nonce = 0, tx_gasLimit = 100,
      tx_to = None, tx_value = 6, tx_data = [], tx_v = None, tx_r = None, tx_s = None,
      tx_activeCapabilities = [1559, 2718, 2930], tx_cache_hash = None, tx_frozen = True,
      tx_common = testCommon, tx_chainId = 4, tx_accessList = [], tx_maxFeePerGas = 10,
      tx_maxPriorityFeePerGas = 8, tx_pV = None, tx_pR = None, tx_pS = None\<rparr>"

text \<open>A values array of nine byte strings whose nonce has a leading zero byte.\<close>

definition leadingZeroValues :: "rlp list" where
  "leadingZeroValues =
     [RBytes [4], RBytes [0, 1], RBytes [], RBytes [], RBytes [], RBytes [], RBytes [],
      RBytes [], RList []]"

text \<open>
  The transaction built from \<open>{}\<close> with the test's registry, the fifteen raw values of
  its serialized form, and the transaction decoded from them.
\<close>

definition emptyTx :: tx where
  "emptyTx =
     upfrontCostTx\<lparr>tx_gasLimit := 0, tx_value := 0, tx_maxFeePerGas := 0,
                    tx_maxPriorityFeePerGas := 0\<rparr>"

definition unsignedValues :: "rlp list" where
  "unsignedValues =
     [RBytes [4], RBytes [], RBytes [], RBytes [], RBytes [], RBytes [], RBytes [],
      RBytes [], RList [], RBytes [], RBytes [], RBytes [], RBytes [], RBytes [], RBytes []]"

definition decodedUnsignedTx :: tx where
  "decodedUnsignedTx = emptyTx\<lparr>tx_v := Some 0, tx_pV := Some 0\<rparr>"

definition emptySecondaryData :: txData where
  "emptySecondaryData = emptyTxData\<lparr>d_pV := Bytes [], d_pR := Bytes [], d_pS := Bytes []\<rparr>"

text \<open>The transaction data of the test \<open>Fee validation\<close>.\<close>

definition feeBoundaryData :: txData where
  "feeBoundaryData =
     emptyTxData\<lparr>d_maxFeePerGas := BigInt (2 ^ 256 - 1), d_maxPriorityFeePerGas := Num 100,
                  d_gasLimit := Num 1, d_value := Num 6\<rparr>"

definition feeOverflowData :: txData where
  "feeOverflowData =
     emptyTxData\<lparr>d_maxFeePerGas := BigInt (2 ^ 256 - 1), d_maxPriorityFeePerGas := Num 100,
                  d_gasLimit := Num 100, d_value := Num 6\<rparr>"

definition feeOrderData :: txData where
  "feeOrderData =
     emptyTxData\<lparr>d_maxFeePerGas := Num 1, d_maxPriorityFeePerGas := Num 2,
                  d_gasLimit := Num 100, d_value := Num 6\<rparr>"

text \<open>
  Fees in the wrong order whose product with the gas limit is also too large, and the
  object that the constructor has built when it reaches the two checks.
\<close>

definition feeOrderOverflowData :: txData where
  "feeOrderOverflowData =
     emptyTxData\<lparr>d_maxFeePerGas := BigInt (2 ^ 255),
                  d_maxPriorityFeePerGas := BigInt (2 ^ 255 + 1), d_gasLimit := Num 2\<rparr>"

definition feeOrderOverflowFields :: tx where
  "feeOrderOverflowFields =
     emptyTx\<lparr>tx_gasLimit := 2, tx_maxFeePerGas := 2 ^ 255,
              tx_maxPriorityFeePerGas := 2 ^ 255 + 1, tx_frozen := False\<rparr>"

text \<open>Fees in the wrong order just below the bound, with a gas limit of 100.\<close>

definition feeOrderHugeData :: txData where
  "feeOrderHugeData =
     emptyTxData\<lparr>d_maxFeePerGas := BigInt (2 ^ 256 - 2),
                  d_maxPriorityFeePerGas := BigInt (2 ^ 256 - 1),
                  d_gasLimit := Num 100, d_value := Num 6\<rparr>"

text \<open>A secondary signature component of 257 bits.\<close>

definition pROverflowData :: txData where
  "pROverflowData = emptyTxData\<lparr>d_pR := BigInt (2 ^ 256)\<rparr>"

definition pROverflowTx :: tx where
  "pROverflowTx = emptyTx\<lparr>tx_pR := Some (2 ^ 256)\<rparr>"

definition pSOverflowData :: txData where
  "pSOverflowData = emptyTxData\<lparr>d_pS := BigInt (2 ^ 256)\<rparr>"

text \<open>
  The unsigned transaction of the test \<open>unsigned tx -> getMessageToSign()\<close> and the
  serialization the test expects.
\<close>

definition validAddress :: "byte list" where
  "validAddress = [0x01, 0x01, 0x01, 0x01, 0x01, 0x01, 0x01, 0x01, 0x01, 0x01, 0x01, 0x01, 0x01, 0x01, 0x01, 0x01, 0x01, 0x01, 0x01, 0x01]"

definition validSlot :: "byte list" where
  "validSlot = [0x01, 0x01, 0x01, 0x01, 0x01, 0x01, 0x01, 0x01, 0x01, 0x01, 0x01, 0x01, 0x01, 0x01, 0x01, 0x01, 0x01, 0x01, 0x01, 0x01, 0x01, 0x01, 0x01, 0x01, 0x01, 0x01, 0x01, 0x01, 0x01, 0x01, 0x01, 0x01]"

definition messageData :: txData where
  "messageData =
     emptyTxData\<lparr>d_data := Bytes [0x01, 0x02, 0x00], d_to := Bytes validAddress,
                  d_accessList := Some (RList [RList [RBytes validAddress, RList [RBytes validSlot]]]),
                  d_chainId := BigInt 4\<rparr>"

definition messageTx :: tx where
  "messageTx =
     emptyTx\<lparr>tx_to := Some validAddress, tx_data := [0x01, 0x02, 0x00],
              tx_accessList := [(validAddress, [validSlot])]\<rparr>"

definition expectedSerialization :: "byte list" where
  "expectedSerialization = [
      0x40, 0xf8, 0x59, 0x04, 0x80, 0x80, 0x80, 0x80, 0x94, 0x01, 0x01, 0x01,
      0x01, 0x01, 0x01, 0x01, 0x01, 0x01, 0x01, 0x01, 0x01, 0x01, 0x01, 0x01,
      0x01, 0x01, 0x01, 0x01, 0x01, 0x80, 0x83, 0x01, 0x02, 0x00, 0xf8, 0x38,
      0xf7, 0x94, 0x01, 0x01, 0x01, 0x01, 0x01, 0x01, 0x01, 0x01, 0x01, 0x01,
      0x01, 0x01, 0x01, 0x01, 0x01, 0x01, 0x01, 0x01, 0x01, 0x01, 0xe1, 0xa0,
      0x01, 0x01, 0x01, 0x01, 0x01, 0x01, 0x01, 0x01, 0x01, 0x01, 0x01, 0x01,
      0x01, 0x01, 0x01, 0x01, 0x01, 0x01, 0x01, 0x01, 0x01, 0x01, 0x01, 0x01,
      0x01, 0x01, 0x01, 0x01, 0x01, 0x01, 0x01, 0x01]"

text \<open>
  Stand-ins for the three library primitives, to evaluate the operations on concrete
  inputs (the theorems assume nothing of the primitives), and a transaction with both
  signature triples.
\<close>

definition signingKey :: "byte list" where
  "signingKey = replicate 32 1"

definition stubSignature :: "byte list" where
  "stubSignature = replicate 31 0 @ [1] @ replicate 31 0 @ [2]"

definition stubCrypto :: crypto where
  "stubCrypto =
     \<lparr>keccak256 = (\<lambda>bs. [of_nat (length bs)]),
      ecrecover = (\<lambda>h v r s. if s = [] then None else Some (r @ s)),
      secp256k1_sign = (\<lambda>h k. Some (0, stubSignature))\<rparr>"

text \<open>The options with freezing disabled, and the transaction built from \<open>{}\<close> with them.\<close>

definition unfrozenOpts :: txOptions where
  "unfrozenOpts = \<lparr>o_common = Some testCommon, o_freeze = Some False\<rparr>"

definition unfrozenTx :: tx where
  "unfrozenTx = emptyTx\<lparr>tx_txOptions := unfrozenOpts, tx_frozen := False\<rparr>"

text \<open>The options with freezing requested, and the transaction built from \<open>{}\<close> with them.\<close>

definition frozenOpts :: txOptions where
  "frozenOpts = \<lparr>o_common = Some testCommon, o_freeze = Some True\<rparr>"

definition frozenTx :: tx where
  "frozenTx = emptyTx\<lparr>tx_txOptions := frozenOpts\<rparr>"

definition signedData :: txData where
  "signedData =
     emptyTxData\<lparr>d_v := BigInt 0, d_r := BigInt 1, d_s := BigInt 1,
                  d_pV := BigInt 0, d_pR := BigInt 1, d_pS := BigInt 1\<rparr>"

definition signedTx :: tx where
  "signedTx =
     emptyTx\<lparr>tx_v := Some 0, tx_r := Some 1, tx_s := Some 1,
              tx_pV := Some 0, tx_pR := Some 1, tx_pS := Some 1\<rparr>"

text \<open>
  The serialized form of the transaction built from \<open>{}\<close>, with its six empty
  signature fields, and its unsigned message of nine fields.
\<close>

definition unsignedSerialization :: "byte list" where
  "unsignedSerialization =
     [0x40, 0xcf, 0x04, 0x80, 0x80, 0x80, 0x80, 0x80, 0x80, 0x80, 0xc0,
      0x80, 0x80, 0x80, 0x80, 0x80, 0x80]"

definition unsignedMessage :: "byte list" where
  "unsignedMessage = [0x40, 0xc9, 0x04, 0x80, 0x80, 0x80, 0x80, 0x80, 0x80, 0x80, 0xc0]"

text \<open>The wire bytes of that transaction: fifteen fields in a list of 15 payload bytes.\<close>

definition signedSerialization :: "byte list" where
  "signedSerialization =
     [0x40, 0xcf, 0x04, 0x80, 0x80, 0x80, 0x80, 0x80, 0x80, 0x80, 0xc0,
      0x80, 0x01, 0x01, 0x80, 0x01, 0x01]"

section \<open>Properties\<close>

subsection \<open>Sequencing\<close>

lemma bnd_Inl [simp]: "bnd (Inl e) f = Inl e"
  by (simp add: bnd_def)

lemma bnd_Inr [simp]: "bnd (Inr x) f = f x"
  by (simp add: bnd_def)

lemma bnd_eq_Inr: "bnd m f = Inr y \<longleftrightarrow> (\<exists>x. m = Inr x \<and> f x = Inr y)"
  by (cases m) (simp_all add: bnd_def)

lemma bnd_eq_Inl: "bnd m f = Inl e \<longleftrightarrow> m = Inl e \<or> (\<exists>x. m = Inr x \<and> f x = Inl e)"
  by (cases m) (simp_all add: bnd_def)

lemma bnd_neq_Inl: "m \<noteq> Inl e \<Longrightarrow> (\<And>x. f x \<noteq> Inl e) \<Longrightarrow> bnd m f \<noteq> Inl e"
  by (cases m) (simp_all add: bnd_def)

lemma if_neq_Inl: "a \<noteq> Inl e \<Longrightarrow> b \<noteq> Inl e \<Longrightarrow> (if c then a else b) \<noteq> Inl e"
  by simp

subsection \<open>Evaluation on concrete inputs\<close>

lemma unpadded_0 [simp]: "bigIntToUnpaddedUint8Array 0 = []"
  by (simp add: bigIntToUnpaddedUint8Array.simps)

lemma unpadded_Suc_0 [simp]: "bigIntToUnpaddedUint8Array (Suc 0) = [1]"
  by (subst bigIntToUnpaddedUint8Array.simps) simp

lemma unpadded_numeral [simp]:
  "bigIntToUnpaddedUint8Array (numeral k) =
     bigIntToUnpaddedUint8Array (numeral k div 256) @ [of_nat (numeral k mod 256)]"
  by (subst bigIntToUnpaddedUint8Array.simps) simp

lemmas construct_eval =
  baseConstructor_def constructFields_def PriorityETNIP1Transaction_def
  fromValuesArrayFields_def fromValuesArray_def valueAt_def getCommon_def emptyAs0x_def
  intToBytes_def uint8ArrayToBigInt_def sigComponent_def MAX_INTEGER_def MAX_UINT64_def
  TRANSACTION_TYPE_def SECP256K1_ORDER_DIV_2_def Let_def isActivatedEIP_def
  activationFork_def gteHardfork_def checkGasLimitTimesMaxFee_def checkFeeOrdering_def
  validateYParity_def validateHighS_def exceedsHalfOrder_def freezeOption_def
  testCommon_def testOpts_def emptyTxData_def DEFAULT_HARDFORK_def

lemma upfrontCostData_constructed:
  "PriorityETNIP1Transaction upfrontCostData testOpts = Inr upfrontCostTx"
  by (simp add: upfrontCostData_def upfrontCostTx_def construct_eval)

subsection \<open>No step after the length check reports a wrong field count\<close>

lemma toUint8Array_not_WrongFieldCount: "toUint8Array x \<noteq> Inl WrongFieldCount"
  by (cases x) (auto split: list.splits option.splits)

lemma validateCannotExceedMaxInteger_not_WrongFieldCount:
  "validateCannotExceedMaxInteger vs bits ce \<noteq> Inl WrongFieldCount"
  by (induction vs bits ce rule: validateCannotExceedMaxInteger.induct) auto

lemma validateNotArray_not_WrongFieldCount: "validateNotArray xs \<noteq> Inl WrongFieldCount"
  by (induction xs) auto

lemma validateNoLeadingZeroes_not_WrongFieldCount:
  "validateNoLeadingZeroes xs \<noteq> Inl WrongFieldCount"
  by (induction xs) auto

lemma storageSlots_not_WrongFieldCount: "storageSlots ks \<noteq> Inl WrongFieldCount"
  by (induction ks rule: storageSlots.induct) (simp_all add: bnd_eq_Inl)

lemma accessListItems_not_WrongFieldCount: "accessListItems items \<noteq> Inl WrongFieldCount"
  by (induction items rule: accessListItems.induct)
     (simp_all add: bnd_eq_Inl storageSlots_not_WrongFieldCount)

lemma verifyAccessList_not_WrongFieldCount: "verifyAccessList al \<noteq> Inl WrongFieldCount"
  by (cases al) (simp_all add: accessListItems_not_WrongFieldCount)

lemma getCommon_not_WrongFieldCount: "getCommon c chainId \<noteq> Inl WrongFieldCount"
  by (simp add: getCommon_def Let_def bnd_eq_Inl toUint8Array_not_WrongFieldCount
      split: option.splits)

lemma baseConstructor_not_WrongFieldCount:
  "baseConstructor txData opts \<noteq> Inl WrongFieldCount"
  unfolding baseConstructor_def Let_def
  by (intro bnd_neq_Inl if_neq_Inl toUint8Array_not_WrongFieldCount
        validateCannotExceedMaxInteger_not_WrongFieldCount) simp_all

lemma constructFields_not_WrongFieldCount:
  "constructFields txData opts \<noteq> Inl WrongFieldCount"
  unfolding constructFields_def Let_def
  by (intro bnd_neq_Inl if_neq_Inl toUint8Array_not_WrongFieldCount
        baseConstructor_not_WrongFieldCount
        getCommon_not_WrongFieldCount verifyAccessList_not_WrongFieldCount
        validateNotArray_not_WrongFieldCount
        validateCannotExceedMaxInteger_not_WrongFieldCount) simp_all

lemma constructor_not_WrongFieldCount:
  "PriorityETNIP1Transaction txData opts \<noteq> Inl WrongFieldCount"
  unfolding PriorityETNIP1Transaction_def
  unfolding checkGasLimitTimesMaxFee_def checkFeeOrdering_def validateYParity_def
    validateHighS_def
  by (intro bnd_neq_Inl if_neq_Inl constructFields_not_WrongFieldCount) simp_all

lemma fromValuesArrayFields_not_WrongFieldCount:
  "fromValuesArrayFields values opts \<noteq> Inl WrongFieldCount"
  unfolding fromValuesArrayFields_def Let_def
  by (intro bnd_neq_Inl validateNotArray_not_WrongFieldCount
        validateNoLeadingZeroes_not_WrongFieldCount constructor_not_WrongFieldCount)

subsection \<open>The field count of a values array and the upfront cost\<close>

text \<open>
  C1. A priority transaction built from a values array fails with \<open>WrongFieldCount\<close>
  unless the array has exactly 9 or exactly 15 entries. For an array of 9 or 15
  entries the length check passes: construction is what the per-field validation and
  the constructor make of it, and is never a \<open>WrongFieldCount\<close> failure.
\<close>

theorem fromValuesArray_field_count:
  "(length values \<noteq> 9 \<and> length values \<noteq> 15 \<longrightarrow>
      fromValuesArray values opts = Inl WrongFieldCount) \<and>
   (length values = 9 \<or> length values = 15 \<longrightarrow>
      fromValuesArray values opts = fromValuesArrayFields values opts \<and>
      fromValuesArray values opts \<noteq> Inl WrongFieldCount)"
  using fromValuesArrayFields_not_WrongFieldCount [of "values" opts]
  by (auto simp: fromValuesArray_def)

theorem fromValuesArray_field_count_witness:
  "fromValuesArray [] testOpts = Inl WrongFieldCount \<and>
   fromValuesArray (leadingZeroValues @ [RBytes []]) testOpts = Inl WrongFieldCount \<and>
   fromValuesArray leadingZeroValues testOpts = fromValuesArrayFields leadingZeroValues testOpts \<and>
   fromValuesArray leadingZeroValues testOpts = Inl InvalidFieldEncoding"
proof -
  have len: "length leadingZeroValues = 9"
    by (simp add: leadingZeroValues_def)
  have fields: "fromValuesArrayFields leadingZeroValues testOpts = Inl InvalidFieldEncoding"
    by (simp add: leadingZeroValues_def fromValuesArrayFields_def valueAt_def)
  show ?thesis
    using fromValuesArray_field_count [of "[]" testOpts]
      fromValuesArray_field_count [of "leadingZeroValues @ [RBytes []]" testOpts]
      fromValuesArray_field_count [of leadingZeroValues testOpts] len fields
    by simp
qed

text \<open>
  C5. For every transaction and every base fee, \<open>getUpfrontCost\<close> is
  \<open>gasLimit * (baseFee + min(maxPriorityFeePerGas, maxFeePerGas - baseFee)) + value\<close>
  in exact integer arithmetic; the transaction built from \<open>maxFeePerGas = 10\<close>,
  \<open>maxPriorityFeePerGas = 8\<close>, \<open>gasLimit = 100\<close>, \<open>value = 6\<close> costs 806 at base fee 0
  and 1006 at base fee 4.
\<close>

theorem getUpfrontCost_formula:
  "getUpfrontCost this baseFee =
     int (tx_gasLimit this) *
       (baseFee + min (int (tx_maxPriorityFeePerGas this)) (int (tx_maxFeePerGas this) - baseFee))
     + int (tx_value this) \<and>
   (\<exists>t. PriorityETNIP1Transaction upfrontCostData testOpts = Inr t \<and>
        getUpfrontCost t 0 = 806 \<and> getUpfrontCost t 4 = 1006)"
proof
  show "getUpfrontCost this baseFee =
     int (tx_gasLimit this) *
       (baseFee + min (int (tx_maxPriorityFeePerGas this)) (int (tx_maxFeePerGas this) - baseFee))
     + int (tx_value this)"
    by (simp add: getUpfrontCost_def Let_def min_def)
  have "getUpfrontCost upfrontCostTx 0 = 806" "getUpfrontCost upfrontCostTx 4 = 1006"
    by (simp_all add: getUpfrontCost_def upfrontCostTx_def)
  then show "\<exists>t. PriorityETNIP1Transaction upfrontCostData testOpts = Inr t \<and>
        getUpfrontCost t 0 = 806 \<and> getUpfrontCost t 4 = 1006"
    using upfrontCostData_constructed by simp
qed

theorem getUpfrontCost_formula_witness:
  "getUpfrontCost upfrontCostTx 4 = 100 * (4 + min 8 (10 - 4)) + 6 \<and>
   getUpfrontCost upfrontCostTx 0 = 100 * (0 + min 8 (10 - 0)) + 6"
  using getUpfrontCost_formula [of upfrontCostTx 4] getUpfrontCost_formula [of upfrontCostTx 0]
  by (simp add: upfrontCostTx_def)

subsection \<open>The checks of the constructor\<close>

lemma constructor_Inr_iff:
  "PriorityETNIP1Transaction txData opts = Inr t \<longleftrightarrow>
     (\<exists>this. constructFields txData opts = Inr this \<and>
        checkGasLimitTimesMaxFee this = Inr () \<and>
        checkFeeOrdering this = Inr () \<and>
        validateYParity this = Inr () \<and>
        validateHighS this = Inr () \<and>
        (if freezeOption opts then this\<lparr>tx_frozen := True\<rparr> else this) = t)"
  unfolding PriorityETNIP1Transaction_def bnd_eq_Inr
  by simp

lemma validate256_Cons:
  "validateCannotExceedMaxInteger (x # xs) 256 False = Inr () \<longleftrightarrow>
     (case x of None \<Rightarrow> True | Some n \<Rightarrow> n \<le> MAX_INTEGER) \<and>
     validateCannotExceedMaxInteger xs 256 False = Inr ()"
  by (cases x) auto

lemma constructFields_secondary:
  assumes "constructFields txData opts = Inr this"
  shows "\<exists>pvB prB psB.
    toUint8Array (emptyAs0x (d_pV txData)) = Inr pvB \<and> tx_pV this = sigComponent pvB \<and>
    toUint8Array (emptyAs0x (d_pR txData)) = Inr prB \<and> tx_pR this = sigComponent prB \<and>
    toUint8Array (emptyAs0x (d_pS txData)) = Inr psB \<and> tx_pS this = sigComponent psB"
  using assms unfolding constructFields_def Let_def
  by (auto simp: bnd_eq_Inr validate256_Cons split: if_splits)

lemma constructor_secondary:
  assumes "PriorityETNIP1Transaction txData opts = Inr t"
  shows "\<exists>pvB prB psB.
    toUint8Array (emptyAs0x (d_pV txData)) = Inr pvB \<and> tx_pV t = sigComponent pvB \<and>
    toUint8Array (emptyAs0x (d_pR txData)) = Inr prB \<and> tx_pR t = sigComponent prB \<and>
    toUint8Array (emptyAs0x (d_pS txData)) = Inr psB \<and> tx_pS t = sigComponent psB"
proof -
  from assms obtain this where cf: "constructFields txData opts = Inr this"
    and t: "(if freezeOption opts then this\<lparr>tx_frozen := True\<rparr> else this) = t"
    unfolding constructor_Inr_iff by blast
  have "tx_pV t = tx_pV this" "tx_pR t = tx_pR this" "tx_pS t = tx_pS this"
    unfolding t [symmetric] by simp_all
  with constructFields_secondary [OF cf] show ?thesis
    by simp
qed

lemma sigComponent_Nil: "sigComponent [] = None"
  by (simp add: sigComponent_def)

lemma sigComponent_zero: "sigComponent [0] = Some 0"
  by (simp add: sigComponent_def uint8ArrayToBigInt_def)

lemma isSigned_iff:
  "isSigned t \<longleftrightarrow> tx_v t \<noteq> None \<and> tx_r t \<noteq> None \<and> tx_s t \<noteq> None \<and>
     tx_pV t \<noteq> None \<and> tx_pR t \<noteq> None \<and> tx_pS t \<noteq> None"
  by (simp add: isSigned_def)

lemma toUint8Array_empty_Bytes: "toUint8Array (emptyAs0x (Bytes [])) = Inr []"
  by (simp add: emptyAs0x_def)

lemma toUint8Array_BigInt_0: "toUint8Array (emptyAs0x (BigInt 0)) = Inr [0]"
  by (simp add: emptyAs0x_def intToBytes_def)

lemma fromValuesArrayFields_Inr:
  assumes "fromValuesArrayFields values opts = Inr t"
  shows "\<exists>txData. PriorityETNIP1Transaction txData opts = Inr t \<and>
     d_pV txData = toBigIntOrUndefined (valueAt values 12) \<and>
     d_pR txData = valueAt values 13 \<and> d_pS txData = valueAt values 14"
  using assms unfolding fromValuesArrayFields_def Let_def bnd_eq_Inr
  by auto

lemma emptyTxData_constructed:
  "PriorityETNIP1Transaction emptyTxData testOpts = Inr emptyTx"
  by (simp add: emptyTx_def upfrontCostTx_def construct_eval)

lemma emptySecondaryData_constructed:
  "PriorityETNIP1Transaction emptySecondaryData testOpts = Inr emptyTx"
  by (simp add: emptySecondaryData_def emptyTx_def upfrontCostTx_def construct_eval)

lemma unsignedValues_decoded:
  "fromValuesArray unsignedValues testOpts = Inr decodedUnsignedTx"
  by (simp add: unsignedValues_def decodedUnsignedTx_def emptyTx_def upfrontCostTx_def
      construct_eval)

lemma nineValues_decoded:
  "fromValuesArray (take 9 unsignedValues) testOpts = Inr emptyTx"
  by (simp add: unsignedValues_def emptyTx_def upfrontCostTx_def construct_eval)

lemma raw_emptyTx: "raw emptyTx = unsignedValues"
  by (simp add: raw_def emptyTx_def upfrontCostTx_def unsignedValues_def optionalBigInt_def
      accessListValue_def testCommon_def)

text \<open>
  C2. For every construction whose other preconditions hold (the fields are built and
  the fee ordering, parity and low-S checks pass), construction fails with
  \<open>IntegerOverflow\<close> exactly when \<open>gasLimit * maxFeePerGas > 2^256 - 1\<close>, and succeeds
  otherwise, the boundary \<open>2^256 - 1\<close> included.
\<close>

theorem gasLimit_maxFeePerGas_overflow:
  assumes "constructFields txData opts = Inr this"
    and "tx_maxPriorityFeePerGas this \<le> tx_maxFeePerGas this"
    and "validateYParity this = Inr ()"
    and "validateHighS this = Inr ()"
  shows "(PriorityETNIP1Transaction txData opts = Inl IntegerOverflow \<longleftrightarrow>
            tx_gasLimit this * tx_maxFeePerGas this > 2 ^ 256 - 1) \<and>
         (tx_gasLimit this * tx_maxFeePerGas this \<le> 2 ^ 256 - 1 \<longrightarrow>
            (\<exists>t. PriorityETNIP1Transaction txData opts = Inr t))"
  using assms
  by (simp add: PriorityETNIP1Transaction_def checkGasLimitTimesMaxFee_def
      checkFeeOrdering_def MAX_INTEGER_def)

theorem gasLimit_maxFeePerGas_overflow_witness:
  "(\<exists>t. PriorityETNIP1Transaction feeBoundaryData testOpts = Inr t) \<and>
   PriorityETNIP1Transaction feeOverflowData testOpts = Inl IntegerOverflow"
proof -
  let ?b = "upfrontCostTx\<lparr>tx_gasLimit := 1, tx_maxFeePerGas := 2 ^ 256 - 1,
              tx_maxPriorityFeePerGas := 100, tx_frozen := False\<rparr>"
  let ?o = "upfrontCostTx\<lparr>tx_gasLimit := 100, tx_maxFeePerGas := 2 ^ 256 - 1,
              tx_maxPriorityFeePerGas := 100, tx_frozen := False\<rparr>"
  have b: "constructFields feeBoundaryData testOpts = Inr ?b"
    by (simp add: feeBoundaryData_def upfrontCostTx_def construct_eval)
  have o: "constructFields feeOverflowData testOpts = Inr ?o"
    by (simp add: feeOverflowData_def upfrontCostTx_def construct_eval)
  have b1: "tx_maxPriorityFeePerGas ?b \<le> tx_maxFeePerGas ?b"
    and o1: "tx_maxPriorityFeePerGas ?o \<le> tx_maxFeePerGas ?o"
    by simp_all
  have b2: "validateYParity ?b = Inr ()" and o2: "validateYParity ?o = Inr ()"
    by (simp_all add: validateYParity_def upfrontCostTx_def)
  have b3: "validateHighS ?b = Inr ()" and o3: "validateHighS ?o = Inr ()"
    by (simp_all add: validateHighS_def exceedsHalfOrder_def upfrontCostTx_def)
  have "tx_gasLimit ?b * tx_maxFeePerGas ?b \<le> 2 ^ 256 - 1"
    by (simp add: upfrontCostTx_def)
  moreover have "tx_gasLimit ?o * tx_maxFeePerGas ?o > 2 ^ 256 - 1"
    by (simp add: upfrontCostTx_def)
  ultimately show ?thesis
    using gasLimit_maxFeePerGas_overflow [OF b b1 b2 b3]
      gasLimit_maxFeePerGas_overflow [OF o o1 o2 o3]
    by blast
qed

text \<open>
  C3, as the code has it. Once the fields are built: with
  \<open>maxFeePerGas < maxPriorityFeePerGas\<close> no instance is produced; the failure is
  \<open>FeeOrderingViolation\<close> when the earlier check of \<open>gasLimit * maxFeePerGas\<close> passes,
  and \<open>IntegerOverflow\<close> when it does not. With
  \<open>maxFeePerGas \<ge> maxPriorityFeePerGas\<close> the fee ordering check passes.
\<close>

theorem fee_ordering_after_gas_check:
  assumes "constructFields txData opts = Inr this"
  shows "(tx_maxFeePerGas this < tx_maxPriorityFeePerGas this \<longrightarrow>
            (\<forall>t. PriorityETNIP1Transaction txData opts \<noteq> Inr t)) \<and>
         (tx_maxFeePerGas this < tx_maxPriorityFeePerGas this \<and>
          tx_gasLimit this * tx_maxFeePerGas this \<le> 2 ^ 256 - 1 \<longrightarrow>
            PriorityETNIP1Transaction txData opts = Inl FeeOrderingViolation) \<and>
         (tx_maxFeePerGas this < tx_maxPriorityFeePerGas this \<and>
          tx_gasLimit this * tx_maxFeePerGas this > 2 ^ 256 - 1 \<longrightarrow>
            PriorityETNIP1Transaction txData opts = Inl IntegerOverflow) \<and>
         (tx_maxPriorityFeePerGas this \<le> tx_maxFeePerGas this \<longrightarrow>
            checkFeeOrdering this = Inr ())"
proof (intro conjI impI allI)
  fix t
  assume "tx_maxFeePerGas this < tx_maxPriorityFeePerGas this"
  then show "PriorityETNIP1Transaction txData opts \<noteq> Inr t"
    using assms by (simp add: constructor_Inr_iff checkFeeOrdering_def)
next
  assume "tx_maxFeePerGas this < tx_maxPriorityFeePerGas this \<and>
          tx_gasLimit this * tx_maxFeePerGas this \<le> 2 ^ 256 - 1"
  then show "PriorityETNIP1Transaction txData opts = Inl FeeOrderingViolation"
    using assms
    by (simp add: PriorityETNIP1Transaction_def checkGasLimitTimesMaxFee_def
        checkFeeOrdering_def MAX_INTEGER_def)
next
  assume "tx_maxFeePerGas this < tx_maxPriorityFeePerGas this \<and>
          tx_gasLimit this * tx_maxFeePerGas this > 2 ^ 256 - 1"
  then show "PriorityETNIP1Transaction txData opts = Inl IntegerOverflow"
    using assms
    by (simp add: PriorityETNIP1Transaction_def checkGasLimitTimesMaxFee_def
        MAX_INTEGER_def)
next
  assume "tx_maxPriorityFeePerGas this \<le> tx_maxFeePerGas this"
  then show "checkFeeOrdering this = Inr ()"
    by (simp add: checkFeeOrdering_def)
qed

theorem fee_ordering_after_gas_check_witness:
  "PriorityETNIP1Transaction feeOrderData testOpts = Inl FeeOrderingViolation \<and>
   PriorityETNIP1Transaction feeOrderHugeData testOpts = Inl IntegerOverflow \<and>
   checkFeeOrdering upfrontCostTx = Inr ()"
proof -
  let ?f = "upfrontCostTx\<lparr>tx_maxFeePerGas := 1, tx_maxPriorityFeePerGas := 2,
              tx_frozen := False\<rparr>"
  let ?h = "upfrontCostTx\<lparr>tx_maxFeePerGas := 2 ^ 256 - 2,
              tx_maxPriorityFeePerGas := 2 ^ 256 - 1, tx_frozen := False\<rparr>"
  let ?u = "upfrontCostTx\<lparr>tx_frozen := False\<rparr>"
  have f: "constructFields feeOrderData testOpts = Inr ?f"
    by (simp add: feeOrderData_def upfrontCostTx_def construct_eval)
  have h: "constructFields feeOrderHugeData testOpts = Inr ?h"
    by (simp add: feeOrderHugeData_def upfrontCostTx_def construct_eval)
  have u: "constructFields upfrontCostData testOpts = Inr ?u"
    by (simp add: upfrontCostData_def upfrontCostTx_def construct_eval)
  have "tx_maxFeePerGas ?f < tx_maxPriorityFeePerGas ?f"
    and "tx_gasLimit ?f * tx_maxFeePerGas ?f \<le> 2 ^ 256 - 1"
    and "tx_maxFeePerGas ?h < tx_maxPriorityFeePerGas ?h"
    and "tx_gasLimit ?h * tx_maxFeePerGas ?h > 2 ^ 256 - 1"
    and "tx_maxPriorityFeePerGas ?u \<le> tx_maxFeePerGas ?u"
    by (simp_all add: upfrontCostTx_def)
  then have "PriorityETNIP1Transaction feeOrderData testOpts = Inl FeeOrderingViolation"
    and "PriorityETNIP1Transaction feeOrderHugeData testOpts = Inl IntegerOverflow"
    and "checkFeeOrdering ?u = Inr ()"
    using fee_ordering_after_gas_check [OF f] fee_ordering_after_gas_check [OF h]
      fee_ordering_after_gas_check [OF u]
    by blast+
  then show ?thesis
    by (simp add: checkFeeOrdering_def)
qed

text \<open>
  C3 as stated fails: with \<open>maxFeePerGas = 2^255\<close>, \<open>maxPriorityFeePerGas = 2^255 + 1\<close>
  and \<open>gasLimit = 2\<close> the fees are in the wrong order, and construction fails with
  \<open>IntegerOverflow\<close>, from the check of \<open>gasLimit * maxFeePerGas\<close> that comes first.
\<close>

theorem fee_ordering_counterexample:
  "constructFields feeOrderOverflowData testOpts = Inr feeOrderOverflowFields \<and>
   tx_maxFeePerGas feeOrderOverflowFields < tx_maxPriorityFeePerGas feeOrderOverflowFields \<and>
   PriorityETNIP1Transaction feeOrderOverflowData testOpts = Inl IntegerOverflow \<and>
   PriorityETNIP1Transaction feeOrderOverflowData testOpts \<noteq> Inl FeeOrderingViolation"
  by (simp add: feeOrderOverflowData_def feeOrderOverflowFields_def emptyTx_def
      upfrontCostTx_def construct_eval)

text \<open>
  C4 fails on the code: the constructor passes \<open>this.pR\<close> and \<open>this.pS\<close> to the bound
  check before it assigns them, so the check sees \<open>undefined\<close>. A \<open>pR\<close> of \<open>2^256\<close> is
  accepted and stored; a \<open>pS\<close> of \<open>2^256\<close> is rejected only by the low-S check, as
  \<open>HighSSignature\<close>.
\<close>

theorem pR_pS_bound_not_checked:
  "PriorityETNIP1Transaction pROverflowData testOpts = Inr pROverflowTx \<and>
   tx_pR pROverflowTx = Some (2 ^ 256) \<and>
   PriorityETNIP1Transaction pSOverflowData testOpts = Inl HighSSignature"
  by (simp add: pROverflowData_def pROverflowTx_def pSOverflowData_def emptyTx_def
      upfrontCostTx_def construct_eval)

subsection \<open>The message to sign, the hash and the recovery\<close>

lemma messageData_constructed:
  "PriorityETNIP1Transaction messageData testOpts = Inr messageTx"
  by (simp add: messageData_def messageTx_def emptyTx_def upfrontCostTx_def validAddress_def
      validSlot_def construct_eval)

lemma encodeLength_short: "n < 56 \<Longrightarrow> encodeLength n offset = [of_nat (n + offset)]"
  by (simp add: encodeLength_def)

lemma encodeLength_long:
  assumes "56 \<le> n" "n < 256"
  shows "encodeLength n offset = [of_nat (offset + 56), of_nat n]"
proof -
  have "bigIntToUnpaddedUint8Array n = [of_nat n]"
    using assms by (subst bigIntToUnpaddedUint8Array.simps) simp
  with assms show ?thesis
    by (simp add: encodeLength_def)
qed

lemma messageTx_message:
  "getMessageToSign cr messageTx False = expectedSerialization"
  by (simp add: getMessageToSign_def raw_def messageTx_def emptyTx_def upfrontCostTx_def
      validAddress_def validSlot_def expectedSerialization_def accessListValue_def
      encodeLength_short encodeLength_long TRANSACTION_TYPE_UINT8ARRAY_def
      TRANSACTION_TYPE_def testCommon_def Let_def)

lemma validate64_Cons:
  "validateCannotExceedMaxInteger (x # xs) 64 ce = Inr () \<longleftrightarrow>
     (case x of None \<Rightarrow> True | Some n \<Rightarrow> if ce then n < MAX_UINT64 else n \<le> MAX_UINT64) \<and>
     validateCannotExceedMaxInteger xs 64 ce = Inr ()"
  by (cases x) auto

lemma baseConstructor_fresh:
  assumes "baseConstructor txData opts = Inr base"
  shows "tx_type base = TRANSACTION_TYPE \<and> tx_txOptions base = opts \<and>
    tx_activeCapabilities base = [] \<and> tx_cache_hash base = None \<and> \<not> tx_frozen base"
  using assms unfolding baseConstructor_def Let_def
  by (auto simp: bnd_eq_Inr split: if_splits)

lemma constructFields_fresh:
  assumes "constructFields txData opts = Inr this"
  shows "tx_type this = TRANSACTION_TYPE \<and> tx_txOptions this = opts \<and>
    tx_activeCapabilities this = [1559, 2718, 2930] \<and> tx_cache_hash this = None \<and>
    \<not> tx_frozen this"
proof -
  from assms obtain base where b: "baseConstructor txData opts = Inr base"
    and f: "tx_type this = tx_type base" "tx_txOptions this = tx_txOptions base"
      "tx_activeCapabilities this = tx_activeCapabilities base @ [1559, 2718, 2930]"
      "tx_cache_hash this = tx_cache_hash base" "tx_frozen this = tx_frozen base"
    unfolding constructFields_def Let_def
    by (auto simp: bnd_eq_Inr validate256_Cons split: if_splits)
  from baseConstructor_fresh [OF b] f show ?thesis
    by simp
qed

lemma constructor_fresh:
  assumes "PriorityETNIP1Transaction txData opts = Inr t"
  shows "tx_type t = TRANSACTION_TYPE \<and> tx_txOptions t = opts \<and>
    tx_activeCapabilities t = [1559, 2718, 2930] \<and> tx_cache_hash t = None \<and>
    tx_frozen t = freezeOption opts"
proof -
  from assms obtain this where cf: "constructFields txData opts = Inr this"
    and t: "(if freezeOption opts then this\<lparr>tx_frozen := True\<rparr> else this) = t"
    unfolding constructor_Inr_iff by blast
  from constructFields_fresh [OF cf] show ?thesis
    unfolding t [symmetric] by simp
qed


lemma signedData_constructed:
  "PriorityETNIP1Transaction signedData testOpts = Inr signedTx"
  by (simp add: signedData_def signedTx_def emptyTx_def upfrontCostTx_def construct_eval)

lemma signedTx_serialized: "serialize signedTx = signedSerialization"
  by (simp add: serialize_def raw_def signedTx_def emptyTx_def upfrontCostTx_def
      optionalBigInt_def accessListValue_def encodeLength_short signedSerialization_def
      TRANSACTION_TYPE_UINT8ARRAY_def TRANSACTION_TYPE_def testCommon_def)

lemma signedTx_signed: "isSigned signedTx"
  by (simp add: isSigned_def signedTx_def)

lemma signedTx_fresh: "tx_frozen signedTx \<and> tx_cache_hash signedTx = None"
  by (simp add: signedTx_def emptyTx_def upfrontCostTx_def)

text \<open>
  C6. For every transaction, \<open>getMessageToSign(false)\<close> is the type byte 0x40 followed
  by the codec encoding of the nine unsigned fields only: it does not depend on the six
  signature fields. The test's unsigned transaction (to of twenty bytes 0x01, data
  0x010200, one access list entry, chain id 4) serializes to the expected bytes.
\<close>

theorem getMessageToSign_unsigned_fields:
  "getMessageToSign cr t False =
     [0x40] @
     rlp_encode (RList
       [RBytes (bigIntToUnpaddedUint8Array (tx_chainId t)),
        RBytes (bigIntToUnpaddedUint8Array (tx_nonce t)),
        RBytes (bigIntToUnpaddedUint8Array (tx_maxPriorityFeePerGas t)),
        RBytes (bigIntToUnpaddedUint8Array (tx_maxFeePerGas t)),
        RBytes (bigIntToUnpaddedUint8Array (tx_gasLimit t)),
        RBytes (case tx_to t of None \<Rightarrow> [] | Some a \<Rightarrow> a),
        RBytes (bigIntToUnpaddedUint8Array (tx_value t)),
        RBytes (tx_data t),
        accessListValue (tx_accessList t)]) \<and>
   getMessageToSign cr
     (t\<lparr>tx_v := v, tx_r := r, tx_s := s, tx_pV := pV, tx_pR := pR, tx_pS := pS\<rparr>) False =
     getMessageToSign cr t False \<and>
   (\<exists>u. PriorityETNIP1Transaction messageData testOpts = Inr u \<and>
        getMessageToSign cr u False = expectedSerialization)"
proof (intro conjI)
  show "getMessageToSign cr t False =
     [0x40] @
     rlp_encode (RList
       [RBytes (bigIntToUnpaddedUint8Array (tx_chainId t)),
        RBytes (bigIntToUnpaddedUint8Array (tx_nonce t)),
        RBytes (bigIntToUnpaddedUint8Array (tx_maxPriorityFeePerGas t)),
        RBytes (bigIntToUnpaddedUint8Array (tx_maxFeePerGas t)),
        RBytes (bigIntToUnpaddedUint8Array (tx_gasLimit t)),
        RBytes (case tx_to t of None \<Rightarrow> [] | Some a \<Rightarrow> a),
        RBytes (bigIntToUnpaddedUint8Array (tx_value t)),
        RBytes (tx_data t),
        accessListValue (tx_accessList t)])"
    unfolding getMessageToSign_def raw_def Let_def TRANSACTION_TYPE_UINT8ARRAY_def
      TRANSACTION_TYPE_def
    by simp
  show "getMessageToSign cr
     (t\<lparr>tx_v := v, tx_r := r, tx_s := s, tx_pV := pV, tx_pR := pR, tx_pS := pS\<rparr>) False =
     getMessageToSign cr t False"
    unfolding getMessageToSign_def raw_def Let_def
    by simp
  show "\<exists>u. PriorityETNIP1Transaction messageData testOpts = Inr u \<and>
        getMessageToSign cr u False = expectedSerialization"
    using messageData_constructed messageTx_message by blast
qed

theorem getMessageToSign_unsigned_fields_witness:
  "getMessageToSign stubCrypto
     (messageTx\<lparr>tx_v := Some 0, tx_r := Some 1, tx_s := Some 1,
                tx_pV := Some 0, tx_pR := Some 1, tx_pS := Some 1\<rparr>) False =
     expectedSerialization"
proof -
  have "getMessageToSign stubCrypto
     (messageTx\<lparr>tx_v := Some 0, tx_r := Some 1, tx_s := Some 1,
                tx_pV := Some 0, tx_pR := Some 1, tx_pS := Some 1\<rparr>) False =
     getMessageToSign stubCrypto messageTx False"
    by (rule getMessageToSign_unsigned_fields [THEN conjunct2, THEN conjunct1])
  then show ?thesis
    by (simp only: messageTx_message)
qed

text \<open>
  C7. A transaction is signed iff all six signature components are present; \<open>hash()\<close>
  fails with \<open>NotSigned\<close> exactly when it is not signed, and otherwise returns the
  digest of \<open>serialize()\<close>, which is the type byte 0x40 followed by the codec encoding
  of the fifteen raw fields: the nine unsigned ones, then \<open>v\<close>, \<open>r\<close>, \<open>s\<close>, \<open>pV\<close>,
  \<open>pR\<close>, \<open>pS\<close>. The cache of a frozen transaction is empty after construction and
  holds that digest after a call, so every later call returns it too. The transaction
  built with both signature triples \<open>(0, 1, 1)\<close> on chain 4 has the wire bytes
  \<open>0x40cf0480808080808080c0800101800101\<close>, and its hash is their digest.
\<close>

theorem hash_signed_digest:
  "(isSigned t \<longleftrightarrow>
      tx_v t \<noteq> None \<and> tx_r t \<noteq> None \<and> tx_s t \<noteq> None \<and>
      tx_pV t \<noteq> None \<and> tx_pR t \<noteq> None \<and> tx_pS t \<noteq> None) \<and>
   (hash cr t = Inl NotSigned \<longleftrightarrow> \<not> isSigned t) \<and>
   (isSigned t \<and>
    (tx_cache_hash t = None \<or> tx_cache_hash t = Some (keccak256 cr (serialize t))) \<longrightarrow>
      (\<exists>t'. hash cr t = Inr (keccak256 cr (serialize t), t') \<and>
            serialize t' = serialize t \<and> isSigned t' \<and> tx_frozen t' = tx_frozen t \<and>
            (tx_cache_hash t' = None \<or>
             tx_cache_hash t' = Some (keccak256 cr (serialize t'))))) \<and>
   (PriorityETNIP1Transaction txData opts = Inr t \<longrightarrow> tx_cache_hash t = None) \<and>
   serialize t =
     [0x40] @
     rlp_encode (RList
       [RBytes (bigIntToUnpaddedUint8Array (tx_chainId t)),
        RBytes (bigIntToUnpaddedUint8Array (tx_nonce t)),
        RBytes (bigIntToUnpaddedUint8Array (tx_maxPriorityFeePerGas t)),
        RBytes (bigIntToUnpaddedUint8Array (tx_maxFeePerGas t)),
        RBytes (bigIntToUnpaddedUint8Array (tx_gasLimit t)),
        RBytes (case tx_to t of None \<Rightarrow> [] | Some a \<Rightarrow> a),
        RBytes (bigIntToUnpaddedUint8Array (tx_value t)),
        RBytes (tx_data t),
        RList (map (\<lambda>(a, ks). RList [RBytes a, RList (map RBytes ks)]) (tx_accessList t)),
        RBytes (case tx_v t of None \<Rightarrow> [] | Some n \<Rightarrow> bigIntToUnpaddedUint8Array n),
        RBytes (case tx_r t of None \<Rightarrow> [] | Some n \<Rightarrow> bigIntToUnpaddedUint8Array n),
        RBytes (case tx_s t of None \<Rightarrow> [] | Some n \<Rightarrow> bigIntToUnpaddedUint8Array n),
        RBytes (case tx_pV t of None \<Rightarrow> [] | Some n \<Rightarrow> bigIntToUnpaddedUint8Array n),
        RBytes (case tx_pR t of None \<Rightarrow> [] | Some n \<Rightarrow> bigIntToUnpaddedUint8Array n),
        RBytes (case tx_pS t of None \<Rightarrow> [] | Some n \<Rightarrow> bigIntToUnpaddedUint8Array n)]) \<and>
   (\<exists>u u'. PriorityETNIP1Transaction signedData testOpts = Inr u \<and> isSigned u \<and>
      serialize u = signedSerialization \<and>
      hash cr u = Inr (keccak256 cr signedSerialization, u'))"
proof (intro conjI impI)
  show "isSigned t \<longleftrightarrow>
      tx_v t \<noteq> None \<and> tx_r t \<noteq> None \<and> tx_s t \<noteq> None \<and>
      tx_pV t \<noteq> None \<and> tx_pR t \<noteq> None \<and> tx_pS t \<noteq> None"
    by (rule isSigned_iff)
  show "hash cr t = Inl NotSigned \<longleftrightarrow> \<not> isSigned t"
    by (simp add: hash_def Let_def split: option.splits)
  show "tx_cache_hash t = None" if "PriorityETNIP1Transaction txData opts = Inr t"
    using constructor_fresh [OF that] by simp
  show "serialize t =
     [0x40] @
     rlp_encode (RList
       [RBytes (bigIntToUnpaddedUint8Array (tx_chainId t)),
        RBytes (bigIntToUnpaddedUint8Array (tx_nonce t)),
        RBytes (bigIntToUnpaddedUint8Array (tx_maxPriorityFeePerGas t)),
        RBytes (bigIntToUnpaddedUint8Array (tx_maxFeePerGas t)),
        RBytes (bigIntToUnpaddedUint8Array (tx_gasLimit t)),
        RBytes (case tx_to t of None \<Rightarrow> [] | Some a \<Rightarrow> a),
        RBytes (bigIntToUnpaddedUint8Array (tx_value t)),
        RBytes (tx_data t),
        RList (map (\<lambda>(a, ks). RList [RBytes a, RList (map RBytes ks)]) (tx_accessList t)),
        RBytes (case tx_v t of None \<Rightarrow> [] | Some n \<Rightarrow> bigIntToUnpaddedUint8Array n),
        RBytes (case tx_r t of None \<Rightarrow> [] | Some n \<Rightarrow> bigIntToUnpaddedUint8Array n),
        RBytes (case tx_s t of None \<Rightarrow> [] | Some n \<Rightarrow> bigIntToUnpaddedUint8Array n),
        RBytes (case tx_pV t of None \<Rightarrow> [] | Some n \<Rightarrow> bigIntToUnpaddedUint8Array n),
        RBytes (case tx_pR t of None \<Rightarrow> [] | Some n \<Rightarrow> bigIntToUnpaddedUint8Array n),
        RBytes (case tx_pS t of None \<Rightarrow> [] | Some n \<Rightarrow> bigIntToUnpaddedUint8Array n)])"
    unfolding serialize_def raw_def optionalBigInt_def accessListValue_def
      TRANSACTION_TYPE_UINT8ARRAY_def TRANSACTION_TYPE_def
    by simp
  have "hash cr signedTx =
      Inr (keccak256 cr signedSerialization,
           signedTx\<lparr>tx_cache_hash := Some (keccak256 cr signedSerialization)\<rparr>)"
    by (simp add: hash_def Let_def signedTx_serialized signedTx_signed signedTx_fresh)
  then show "\<exists>u u'. PriorityETNIP1Transaction signedData testOpts = Inr u \<and> isSigned u \<and>
      serialize u = signedSerialization \<and>
      hash cr u = Inr (keccak256 cr signedSerialization, u')"
    using signedData_constructed signedTx_serialized signedTx_signed by blast
next
  assume a: "isSigned t \<and>
    (tx_cache_hash t = None \<or> tx_cache_hash t = Some (keccak256 cr (serialize t)))"
  have ser: "serialize (t\<lparr>tx_cache_hash := c\<rparr>) = serialize t" for c
    by (simp add: serialize_def raw_def)
  have sg: "isSigned (t\<lparr>tx_cache_hash := c\<rparr>) = isSigned t" for c
    by (simp add: isSigned_def)
  show "\<exists>t'. hash cr t = Inr (keccak256 cr (serialize t), t') \<and>
            serialize t' = serialize t \<and> isSigned t' \<and> tx_frozen t' = tx_frozen t \<and>
            (tx_cache_hash t' = None \<or>
             tx_cache_hash t' = Some (keccak256 cr (serialize t')))"
  proof (cases "tx_frozen t \<and> tx_cache_hash t = None")
    case True
    with a have "hash cr t =
        Inr (keccak256 cr (serialize t), t\<lparr>tx_cache_hash := Some (keccak256 cr (serialize t))\<rparr>)"
      by (simp add: hash_def Let_def)
    with a show ?thesis
      by (simp add: ser sg)
  next
    case False
    with a have "hash cr t = Inr (keccak256 cr (serialize t), t)"
      by (auto simp: hash_def Let_def)
    with a show ?thesis
      by simp
  qed
qed

theorem hash_signed_digest_witness:
  "hash stubCrypto emptyTx = Inl NotSigned \<and>
   isSigned signedTx \<and> tx_cache_hash signedTx = None \<and>
   (\<exists>t'. hash stubCrypto signedTx = Inr (keccak256 stubCrypto (serialize signedTx), t')) \<and>
   (\<exists>t'. hash stubCrypto signedTx = Inr ([17], t'))"
proof -
  have e: "\<not> isSigned emptyTx"
    by (simp add: isSigned_def emptyTx_def upfrontCostTx_def)
  have s: "isSigned signedTx"
    by (simp add: isSigned_def signedTx_def)
  have "keccak256 stubCrypto (serialize signedTx) = [17]"
    unfolding hash_signed_digest [of signedTx stubCrypto signedData testOpts,
      THEN conjunct2, THEN conjunct2, THEN conjunct2, THEN conjunct2, THEN conjunct1]
    by (simp add: stubCrypto_def signedTx_def emptyTx_def upfrontCostTx_def
        encodeLength_short testCommon_def)
  then show ?thesis
    using hash_signed_digest [of emptyTx stubCrypto signedData testOpts]
      hash_signed_digest [of signedTx stubCrypto signedData testOpts]
      signedData_constructed e s
    by (metis (no_types, lifting))
qed

text \<open>
  C8. \<open>getSenderAndPriorityPublicKey()\<close> fails with \<open>NotSigned\<close> on a transaction that
  is not signed. On a signed one it fails with \<open>HighSSignature\<close> if, with homestead
  active, \<open>s\<close> or \<open>pS\<close> exceeds half the curve order; otherwise it recovers one key
  from \<open>(v + 27, r, s)\<close> and one from \<open>(pV + 27, pR, pS)\<close>, both on the digest of the
  unsigned message, fails with \<open>InvalidSignature\<close> if either recovery fails, and returns
  both keys otherwise; the first key is the one \<open>getSenderPublicKey()\<close> returns.
\<close>

theorem getSenderAndPriorityPublicKey_result:
  "(\<not> isSigned t \<longrightarrow> getSenderAndPriorityPublicKey cr t = Inl NotSigned) \<and>
   (tx_v t = Some v \<and> tx_r t = Some r \<and> tx_s t = Some s \<and>
    tx_pV t = Some pV \<and> tx_pR t = Some pR \<and> tx_pS t = Some pS \<longrightarrow>
      isSigned t \<and>
      (let digest = keccak256 cr (getMessageToSign cr t False);
           key = ecrecover cr digest (v + 27)
                   (bigIntToUnpaddedUint8Array r) (bigIntToUnpaddedUint8Array s);
           pkey = ecrecover cr digest (pV + 27)
                   (bigIntToUnpaddedUint8Array pR) (bigIntToUnpaddedUint8Array pS)
       in getSenderAndPriorityPublicKey cr t =
            (if gteHardfork (tx_common t) Homestead \<and>
                (s > SECP256K1_ORDER_DIV_2 \<or> pS > SECP256K1_ORDER_DIV_2)
             then Inl HighSSignature
             else if key = None \<or> pkey = None then Inl InvalidSignature
             else Inr (the key, the pkey)))) \<and>
   (getSenderAndPriorityPublicKey cr t = Inr (k, pk) \<longrightarrow> getSenderPublicKey cr t = Inr k)"
proof (intro conjI impI)
  show "getSenderAndPriorityPublicKey cr t = Inl NotSigned" if "\<not> isSigned t"
    using that by (simp add: getSenderAndPriorityPublicKey_def)
  show "getSenderPublicKey cr t = Inr k"
    if "getSenderAndPriorityPublicKey cr t = Inr (k, pk)"
    using that
    by (auto simp: getSenderAndPriorityPublicKey_def getSenderPublicKey_def Let_def
        bnd_eq_Inr split: if_splits option.splits)
next
  assume a: "tx_v t = Some v \<and> tx_r t = Some r \<and> tx_s t = Some s \<and>
    tx_pV t = Some pV \<and> tx_pR t = Some pR \<and> tx_pS t = Some pS"
  then show "isSigned t"
    by (simp add: isSigned_def)
  have msg: "getMessageToVerifySignature cr t = keccak256 cr (getMessageToSign cr t False)"
    by (simp add: getMessageToVerifySignature_def getMessageToSign_def Let_def)
  have highS: "validateHighS t =
      (if gteHardfork (tx_common t) Homestead \<and>
          (s > SECP256K1_ORDER_DIV_2 \<or> pS > SECP256K1_ORDER_DIV_2)
       then Inl HighSSignature else Inr ())"
    using a by (auto simp: validateHighS_def exceedsHalfOrder_def)
  show "let digest = keccak256 cr (getMessageToSign cr t False);
           key = ecrecover cr digest (v + 27)
                   (bigIntToUnpaddedUint8Array r) (bigIntToUnpaddedUint8Array s);
           pkey = ecrecover cr digest (pV + 27)
                   (bigIntToUnpaddedUint8Array pR) (bigIntToUnpaddedUint8Array pS)
       in getSenderAndPriorityPublicKey cr t =
            (if gteHardfork (tx_common t) Homestead \<and>
                (s > SECP256K1_ORDER_DIV_2 \<or> pS > SECP256K1_ORDER_DIV_2)
             then Inl HighSSignature
             else if key = None \<or> pkey = None then Inl InvalidSignature
             else Inr (the key, the pkey))"
    using a
    by (auto simp: getSenderAndPriorityPublicKey_def isSigned_def msg highS recoverWith_def
        Let_def split: option.splits)
qed


theorem getSenderAndPriorityPublicKey_result_witness:
  "getSenderAndPriorityPublicKey stubCrypto emptyTx = Inl NotSigned \<and>
   getSenderAndPriorityPublicKey stubCrypto signedTx = Inr ([1, 1], [1, 1]) \<and>
   getSenderAndPriorityPublicKey stubCrypto
     (signedTx\<lparr>tx_pS := Some (SECP256K1_ORDER_DIV_2 + 1)\<rparr>) = Inl HighSSignature \<and>
   getSenderAndPriorityPublicKey stubCrypto (signedTx\<lparr>tx_pS := Some 0\<rparr>) =
     Inl InvalidSignature"
proof -
  have e: "\<not> isSigned emptyTx"
    by (simp add: isSigned_def emptyTx_def upfrontCostTx_def)
  have h: "gteHardfork (tx_common signedTx) Homestead"
    by (simp add: signedTx_def emptyTx_def upfrontCostTx_def testCommon_def gteHardfork_def)
  have a: "getSenderAndPriorityPublicKey stubCrypto emptyTx = Inl NotSigned"
    using getSenderAndPriorityPublicKey_result [of emptyTx stubCrypto] e by blast
  have b: "getSenderAndPriorityPublicKey stubCrypto signedTx = Inr ([1, 1], [1, 1])"
    using getSenderAndPriorityPublicKey_result
      [where t = signedTx and cr = stubCrypto and v = 0 and r = 1 and s = 1 and pV = 0
         and pR = 1 and pS = 1] h
    by (simp add: signedTx_def stubCrypto_def SECP256K1_ORDER_DIV_2_def)
  have c: "getSenderAndPriorityPublicKey stubCrypto
     (signedTx\<lparr>tx_pS := Some (SECP256K1_ORDER_DIV_2 + 1)\<rparr>) = Inl HighSSignature"
    using getSenderAndPriorityPublicKey_result
      [where t = "signedTx\<lparr>tx_pS := Some (SECP256K1_ORDER_DIV_2 + 1)\<rparr>"
         and cr = stubCrypto and v = 0 and r = 1 and s = 1 and pV = 0 and pR = 1
         and pS = "SECP256K1_ORDER_DIV_2 + 1"] h
    by (simp add: signedTx_def)
  have d: "getSenderAndPriorityPublicKey stubCrypto (signedTx\<lparr>tx_pS := Some 0\<rparr>) =
     Inl InvalidSignature"
    using getSenderAndPriorityPublicKey_result
      [where t = "signedTx\<lparr>tx_pS := Some 0\<rparr>" and cr = stubCrypto and v = 0
         and r = 1 and s = 1 and pV = 0 and pR = 1 and pS = 0] h
    by (simp add: signedTx_def stubCrypto_def SECP256K1_ORDER_DIV_2_def)
  from a b c d show ?thesis
    by simp
qed

subsection \<open>Signing\<close>

lemma uint8ArrayToBigInt_snoc:
  "uint8ArrayToBigInt (bs @ [b]) = uint8ArrayToBigInt bs * 256 + unat b"
  by (simp add: uint8ArrayToBigInt_def)

lemma unat_byte_of_nat: "unat (of_nat n :: byte) = n mod 256"
  by (simp add: unat_of_nat)

lemma uint8ArrayToBigInt_unpadded:
  "uint8ArrayToBigInt (bigIntToUnpaddedUint8Array n) = n"
proof (induction n rule: bigIntToUnpaddedUint8Array.induct)
  case (1 n)
  show ?case
  proof (cases "n = 0")
    case True
    then show ?thesis
      by (simp add: uint8ArrayToBigInt_def)
  next
    case False
    have "bigIntToUnpaddedUint8Array n =
        bigIntToUnpaddedUint8Array (n div 256) @ [of_nat (n mod 256)]"
      using False by (subst bigIntToUnpaddedUint8Array.simps) simp
    then show ?thesis
      using 1 [OF False] by (simp add: uint8ArrayToBigInt_snoc unat_byte_of_nat)
  qed
qed

lemma unpadded_nonempty: "n \<noteq> 0 \<Longrightarrow> bigIntToUnpaddedUint8Array n \<noteq> []"
  by (subst bigIntToUnpaddedUint8Array.simps) simp

lemma uint8ArrayToBigInt_intToBytes: "uint8ArrayToBigInt (intToBytes n) = n"
proof (cases "n = 0")
  case True
  then show ?thesis
    by (simp add: intToBytes_def uint8ArrayToBigInt_def)
next
  case False
  then show ?thesis
    by (simp add: intToBytes_def uint8ArrayToBigInt_unpadded)
qed

lemma intToBytes_nonempty: "intToBytes n \<noteq> []"
  using unpadded_nonempty [of n] by (simp add: intToBytes_def)

lemma sigComponent_intToBytes: "sigComponent (intToBytes n) = Some n"
  using intToBytes_nonempty [of n]
  by (simp add: sigComponent_def uint8ArrayToBigInt_intToBytes)

lemma uint8ArrayToBigInt_bound: "uint8ArrayToBigInt bs < 256 ^ length bs"
proof (induction bs rule: rev_induct)
  case Nil
  show ?case
    by (simp add: uint8ArrayToBigInt_def)
next
  case (snoc b bs)
  have "unat b < 256"
    using unsigned_less [of b, where ?'a = nat] by simp
  with snoc show ?case
    by (simp add: uint8ArrayToBigInt_snoc)
qed

lemma uint8ArrayToBigInt_take32: "uint8ArrayToBigInt (take 32 bs) \<le> MAX_INTEGER"
proof -
  have "uint8ArrayToBigInt (take 32 bs) < 256 ^ length (take 32 bs)"
    by (rule uint8ArrayToBigInt_bound)
  also have "\<dots> \<le> (256::nat) ^ 32"
    by (rule power_increasing) simp_all
  finally show ?thesis
    by (simp add: MAX_INTEGER_def)
qed

lemma storageSlots_roundtrip:
  "storageSlots ks = Inr slots \<Longrightarrow> storageSlots (map RBytes slots) = Inr slots"
  by (induction ks arbitrary: slots rule: storageSlots.induct)
     (auto simp: bnd_eq_Inr split: if_splits)

lemma accessListItems_roundtrip:
  "accessListItems items = Inr al \<Longrightarrow>
   accessListItems (map (\<lambda>(a, ks). RList [RBytes a, RList (map RBytes ks)]) al) = Inr al"
  by (induction items arbitrary: al rule: accessListItems.induct)
     (auto simp: bnd_eq_Inr storageSlots_roundtrip split: if_splits)

lemma verifyAccessList_roundtrip:
  "verifyAccessList x = Inr al \<Longrightarrow> verifyAccessList (accessListValue al) = Inr al"
  by (cases x) (simp_all add: accessListValue_def accessListItems_roundtrip)


lemma baseConstructor_bounds:
  assumes "baseConstructor txData opts = Inr base"
  shows "tx_value base \<le> MAX_INTEGER \<and> tx_gasLimit base \<le> MAX_UINT64 \<and>
    tx_nonce base < MAX_UINT64 \<and> (\<forall>a. tx_to base = Some a \<longrightarrow> length a = 20)"
  using assms unfolding baseConstructor_def Let_def
  by (auto simp: bnd_eq_Inr validate256_Cons validate64_Cons split: if_splits)

lemma constructFields_invariants:
  assumes "constructFields txData opts = Inr this"
  shows "tx_value this \<le> MAX_INTEGER \<and> tx_gasLimit this \<le> MAX_UINT64 \<and>
    tx_nonce this < MAX_UINT64 \<and> (\<forall>a. tx_to this = Some a \<longrightarrow> length a = 20) \<and>
    tx_chainId this = c_chainId (tx_common this) \<and>
    isActivatedEIP (tx_common this) 1559 \<and>
    verifyAccessList (accessListValue (tx_accessList this)) = Inr (tx_accessList this) \<and>
    tx_maxFeePerGas this \<le> MAX_INTEGER \<and> tx_maxPriorityFeePerGas this \<le> MAX_INTEGER"
proof -
  from assms obtain base x where b: "baseConstructor txData opts = Inr base"
    and f: "tx_value this = tx_value base" "tx_gasLimit this = tx_gasLimit base"
      "tx_nonce this = tx_nonce base" "tx_to this = tx_to base"
    and g: "tx_chainId this = c_chainId (tx_common this)"
      "isActivatedEIP (tx_common this) 1559"
      "verifyAccessList x = Inr (tx_accessList this)"
      "tx_maxFeePerGas this \<le> MAX_INTEGER" "tx_maxPriorityFeePerGas this \<le> MAX_INTEGER"
    unfolding constructFields_def Let_def
    by (auto simp: bnd_eq_Inr validate256_Cons split: if_splits)
  from baseConstructor_bounds [OF b] f g verifyAccessList_roundtrip [OF g(3)]
  show ?thesis
    by simp
qed

lemma constructor_invariants:
  assumes "PriorityETNIP1Transaction txData opts = Inr t"
  shows "tx_value t \<le> MAX_INTEGER \<and> tx_gasLimit t \<le> MAX_UINT64 \<and>
    tx_nonce t < MAX_UINT64 \<and> (\<forall>a. tx_to t = Some a \<longrightarrow> length a = 20) \<and>
    tx_chainId t = c_chainId (tx_common t) \<and>
    isActivatedEIP (tx_common t) 1559 \<and>
    verifyAccessList (accessListValue (tx_accessList t)) = Inr (tx_accessList t) \<and>
    tx_maxFeePerGas t \<le> MAX_INTEGER \<and> tx_maxPriorityFeePerGas t \<le> MAX_INTEGER \<and>
    tx_gasLimit t * tx_maxFeePerGas t \<le> MAX_INTEGER \<and>
    tx_maxPriorityFeePerGas t \<le> tx_maxFeePerGas t"
proof -
  from assms obtain this where cf: "constructFields txData opts = Inr this"
    and g: "checkGasLimitTimesMaxFee this = Inr ()" "checkFeeOrdering this = Inr ()"
    and t: "(if freezeOption opts then this\<lparr>tx_frozen := True\<rparr> else this) = t"
    unfolding constructor_Inr_iff by blast
  have "tx_gasLimit this * tx_maxFeePerGas this \<le> MAX_INTEGER"
    "tx_maxPriorityFeePerGas this \<le> tx_maxFeePerGas this"
    using g by (simp_all add: checkGasLimitTimesMaxFee_def checkFeeOrdering_def
        split: if_splits)
  with constructFields_invariants [OF cf] show ?thesis
    unfolding t [symmetric] by simp
qed


lemma toUint8Array_BigInt_nat:
  "toUint8Array (emptyAs0x (BigInt (int n))) = Inr (intToBytes n)"
  by (simp add: emptyAs0x_def)

lemma toUint8Array_Bytes: "toUint8Array (emptyAs0x (Bytes bs)) = Inr bs"
  by (simp add: emptyAs0x_def)

lemma baseConstructor_again:
  assumes "tx_value t \<le> MAX_INTEGER" "tx_gasLimit t \<le> MAX_UINT64"
    "tx_nonce t < MAX_UINT64" "\<forall>a. tx_to t = Some a \<longrightarrow> length a = 20"
    and "r \<le> MAX_INTEGER" "s \<le> MAX_INTEGER"
    and "d_to txData = (case tx_to t of None \<Rightarrow> Undef | Some a \<Rightarrow> Bytes a)"
      "d_v txData = BigInt (int v)" "d_r txData = BigInt (int r)"
      "d_s txData = BigInt (int s)" "d_nonce txData = BigInt (int (tx_nonce t))"
      "d_gasLimit txData = BigInt (int (tx_gasLimit t))"
      "d_value txData = BigInt (int (tx_value t))" "d_data txData = Bytes (tx_data t)"
  shows "baseConstructor txData opts =
     Inr \<lparr>tx_type = TRANSACTION_TYPE, tx_txOptions = opts, tx_nonce = tx_nonce t,
          tx_gasLimit = tx_gasLimit t, tx_to = tx_to t, tx_value = tx_value t,
          tx_data = tx_data t, tx_v = Some v, tx_r = Some r, tx_s = Some s,
          tx_activeCapabilities = [], tx_cache_hash = None, tx_frozen = False\<rparr>"
  unfolding baseConstructor_def Let_def
  using assms
  by (cases "tx_to t")
     (auto simp: toUint8Array_BigInt_nat toUint8Array_Bytes emptyAs0x_def
        uint8ArrayToBigInt_intToBytes sigComponent_intToBytes)


lemma isArray_optional_address:
  "\<not> isArray (case x of None \<Rightarrow> Undef | Some a \<Rightarrow> Bytes a)"
  by (cases x) simp_all

lemma getCommon_again:
  "getCommon (Some cm) (BigInt (int (c_chainId cm))) = Inr cm"
  by (simp add: getCommon_def uint8ArrayToBigInt_intToBytes)

lemma validateNotArray_again:
  "validateNotArray
     [BigInt a, BigInt b, (case x of None \<Rightarrow> Undef | Some y \<Rightarrow> Bytes y), BigInt c, Bytes d,
      BigInt e, BigInt f, BigInt g, BigInt h, BigInt i] = Inr ()"
  by (cases x) simp_all

lemma constructFields_again:
  assumes inv: "tx_value t \<le> MAX_INTEGER" "tx_gasLimit t \<le> MAX_UINT64"
    "tx_nonce t < MAX_UINT64" "\<forall>a. tx_to t = Some a \<longrightarrow> length a = 20"
    "tx_chainId t = c_chainId (tx_common t)" "isActivatedEIP (tx_common t) 1559"
    "verifyAccessList (accessListValue (tx_accessList t)) = Inr (tx_accessList t)"
    "tx_maxFeePerGas t \<le> MAX_INTEGER" "tx_maxPriorityFeePerGas t \<le> MAX_INTEGER"
    and sig: "r \<le> MAX_INTEGER" "s \<le> MAX_INTEGER"
    and opts: "o_common opts = Some (tx_common t)"
    and d: "txData =
      \<lparr>d_chainId = BigInt (int (tx_chainId t)),
       d_nonce = BigInt (int (tx_nonce t)),
       d_maxPriorityFeePerGas = BigInt (int (tx_maxPriorityFeePerGas t)),
       d_maxFeePerGas = BigInt (int (tx_maxFeePerGas t)),
       d_gasLimit = BigInt (int (tx_gasLimit t)),
       d_to = (case tx_to t of None \<Rightarrow> Undef | Some a \<Rightarrow> Bytes a),
       d_value = BigInt (int (tx_value t)),
       d_data = Bytes (tx_data t),
       d_accessList = Some (accessListValue (tx_accessList t)),
       d_v = BigInt (int v), d_r = BigInt (int r), d_s = BigInt (int s),
       d_pV = BigInt (int pV), d_pR = BigInt (int pR), d_pS = BigInt (int pS)\<rparr>"
  shows "constructFields txData opts =
     Inr \<lparr>tx_type = TRANSACTION_TYPE, tx_txOptions = opts, tx_nonce = tx_nonce t,
          tx_gasLimit = tx_gasLimit t, tx_to = tx_to t, tx_value = tx_value t,
          tx_data = tx_data t, tx_v = Some v, tx_r = Some r, tx_s = Some s,
          tx_activeCapabilities = [1559, 2718, 2930], tx_cache_hash = None,
          tx_frozen = False, tx_common = tx_common t, tx_chainId = tx_chainId t,
          tx_accessList = tx_accessList t, tx_maxFeePerGas = tx_maxFeePerGas t,
          tx_maxPriorityFeePerGas = tx_maxPriorityFeePerGas t,
          tx_pV = Some pV, tx_pR = Some pR, tx_pS = Some pS\<rparr>"
proof -
  have base: "baseConstructor txData opts =
     Inr \<lparr>tx_type = TRANSACTION_TYPE, tx_txOptions = opts, tx_nonce = tx_nonce t,
          tx_gasLimit = tx_gasLimit t, tx_to = tx_to t, tx_value = tx_value t,
          tx_data = tx_data t, tx_v = Some v, tx_r = Some r, tx_s = Some s,
          tx_activeCapabilities = [], tx_cache_hash = None, tx_frozen = False\<rparr>"
    by (rule baseConstructor_again [OF inv(1-4) sig]) (simp_all add: d)
  have cm: "getCommon (o_common opts) (d_chainId txData) = Inr (tx_common t)"
    using getCommon_again [of "tx_common t"] by (simp add: d opts inv(5))
  show ?thesis
    unfolding constructFields_def Let_def base cm
    using inv(5-9)
    by (simp add: d toUint8Array_BigInt_nat uint8ArrayToBigInt_intToBytes
        sigComponent_intToBytes isArray_optional_address)
qed


lemma half_order_le_MAX_INTEGER: "SECP256K1_ORDER_DIV_2 \<le> MAX_INTEGER"
  by (simp add: SECP256K1_ORDER_DIV_2_def MAX_INTEGER_def)

lemma validateYParity_bits:
  assumes "tx_v this = Some v" "tx_pV this = Some pV" "v \<le> 1" "pV \<le> 1"
  shows "validateYParity this = Inr ()"
proof -
  have "v = 0 \<or> v = 1" "pV = 0 \<or> pV = 1"
    using assms(3,4) by auto
  with assms(1,2) show ?thesis
    by (auto simp: validateYParity_def)
qed

lemma validateHighS_low:
  assumes "tx_s this = Some s" "tx_pS this = Some pS"
    "s \<le> SECP256K1_ORDER_DIV_2" "pS \<le> SECP256K1_ORDER_DIV_2"
  shows "validateHighS this = Inr ()"
  using assms by (simp add: validateHighS_def exceedsHalfOrder_def)

lemma processSignatures_constructed:
  assumes c: "PriorityETNIP1Transaction txData opts = Inr t"
    and bits: "v \<le> 1" "pV \<le> 1"
    and r: "uint8ArrayToBigInt r \<le> MAX_INTEGER"
    and low: "uint8ArrayToBigInt s \<le> SECP256K1_ORDER_DIV_2"
      "uint8ArrayToBigInt pS \<le> SECP256K1_ORDER_DIV_2"
  shows "processSignatures t (v + 27) r s (pV + 27) pR pS =
     Inr (t\<lparr>tx_txOptions := opts\<lparr>o_common := Some (tx_common t)\<rparr>,
            tx_v := Some v, tx_r := Some (uint8ArrayToBigInt r),
            tx_s := Some (uint8ArrayToBigInt s),
            tx_pV := Some pV, tx_pR := Some (uint8ArrayToBigInt pR),
            tx_pS := Some (uint8ArrayToBigInt pS)\<rparr>)"
proof -
  let ?o = "opts\<lparr>o_common := Some (tx_common t)\<rparr>"
  let ?d = "\<lparr>d_chainId = BigInt (int (tx_chainId t)),
       d_nonce = BigInt (int (tx_nonce t)),
       d_maxPriorityFeePerGas = BigInt (int (tx_maxPriorityFeePerGas t)),
       d_maxFeePerGas = BigInt (int (tx_maxFeePerGas t)),
       d_gasLimit = BigInt (int (tx_gasLimit t)),
       d_to = (case tx_to t of None \<Rightarrow> Undef | Some a \<Rightarrow> Bytes a),
       d_value = BigInt (int (tx_value t)),
       d_data = Bytes (tx_data t),
       d_accessList = Some (accessListValue (tx_accessList t)),
       d_v = BigInt (int v), d_r = BigInt (int (uint8ArrayToBigInt r)),
       d_s = BigInt (int (uint8ArrayToBigInt s)),
       d_pV = BigInt (int pV), d_pR = BigInt (int (uint8ArrayToBigInt pR)),
       d_pS = BigInt (int (uint8ArrayToBigInt pS))\<rparr>"
  let ?new = "\<lparr>tx_type = TRANSACTION_TYPE, tx_txOptions = ?o, tx_nonce = tx_nonce t,
          tx_gasLimit = tx_gasLimit t, tx_to = tx_to t, tx_value = tx_value t,
          tx_data = tx_data t, tx_v = Some v, tx_r = Some (uint8ArrayToBigInt r),
          tx_s = Some (uint8ArrayToBigInt s),
          tx_activeCapabilities = [1559, 2718, 2930], tx_cache_hash = None,
          tx_frozen = False, tx_common = tx_common t, tx_chainId = tx_chainId t,
          tx_accessList = tx_accessList t, tx_maxFeePerGas = tx_maxFeePerGas t,
          tx_maxPriorityFeePerGas = tx_maxPriorityFeePerGas t,
          tx_pV = Some pV, tx_pR = Some (uint8ArrayToBigInt pR),
          tx_pS = Some (uint8ArrayToBigInt pS)\<rparr>"
  note inv = constructor_invariants [OF c]
  note fresh = constructor_fresh [OF c]
  have s: "uint8ArrayToBigInt s \<le> MAX_INTEGER"
    using low(1) half_order_le_MAX_INTEGER by (rule order_trans)
  have cf: "constructFields ?d ?o = Inr ?new"
    by (rule constructFields_again [where v = v and pV = pV]) (use inv r s in simp_all)
  have gas: "checkGasLimitTimesMaxFee ?new = Inr ()"
    using inv by (simp add: checkGasLimitTimesMaxFee_def)
  have fee: "checkFeeOrdering ?new = Inr ()"
    using inv by (simp add: checkFeeOrdering_def)
  have par: "validateYParity ?new = Inr ()"
    by (rule validateYParity_bits [OF _ _ bits]) simp_all
  have high: "validateHighS ?new = Inr ()"
    by (rule validateHighS_low [OF _ _ low]) simp_all
  have fr: "freezeOption ?o = freezeOption opts"
    by (simp add: freezeOption_def)
  have res: "(if freezeOption ?o then ?new\<lparr>tx_frozen := True\<rparr> else ?new) =
     t\<lparr>tx_txOptions := ?o,
            tx_v := Some v, tx_r := Some (uint8ArrayToBigInt r),
            tx_s := Some (uint8ArrayToBigInt s),
            tx_pV := Some pV, tx_pR := Some (uint8ArrayToBigInt pR),
            tx_pS := Some (uint8ArrayToBigInt pS)\<rparr>"
    using fresh by (intro tx.equality) (simp_all add: fr)
  have "PriorityETNIP1Transaction ?d ?o = Inr (t\<lparr>tx_txOptions := ?o,
            tx_v := Some v, tx_r := Some (uint8ArrayToBigInt r),
            tx_s := Some (uint8ArrayToBigInt s),
            tx_pV := Some pV, tx_pR := Some (uint8ArrayToBigInt pR),
            tx_pS := Some (uint8ArrayToBigInt pS)\<rparr>)"
    unfolding constructor_Inr_iff using cf gas fee par high res by blast
  moreover have "tx_txOptions t = opts"
    using fresh by simp
  ultimately show ?thesis
    by (simp add: processSignatures_def fromTxData_def Let_def)
qed


lemma uint8ArrayToBigInt_zeros:
  "uint8ArrayToBigInt (replicate n 0 @ bs) = uint8ArrayToBigInt bs"
  by (induction n) (simp_all add: uint8ArrayToBigInt_def)

lemma stubSignature_r: "uint8ArrayToBigInt (take 32 stubSignature) = 1"
proof -
  have "take 32 stubSignature = replicate 31 0 @ [1]"
    by (simp add: stubSignature_def)
  then show ?thesis
    by (simp add: uint8ArrayToBigInt_zeros) (simp add: uint8ArrayToBigInt_def)
qed

lemma stubSignature_s: "uint8ArrayToBigInt (take 32 (drop 32 stubSignature)) = 2"
proof -
  have "take 32 (drop 32 stubSignature) = replicate 31 0 @ [2]"
    by (simp add: stubSignature_def)
  then show ?thesis
    by (simp add: uint8ArrayToBigInt_zeros) (simp add: uint8ArrayToBigInt_def)
qed

lemma unfrozen_constructed:
  "PriorityETNIP1Transaction emptyTxData unfrozenOpts = Inr unfrozenTx"
  by (simp add: unfrozenOpts_def unfrozenTx_def emptyTx_def upfrontCostTx_def construct_eval)

lemma frozen_constructed:
  "PriorityETNIP1Transaction emptyTxData frozenOpts = Inr frozenTx"
  by (simp add: frozenOpts_def frozenTx_def emptyTx_def upfrontCostTx_def construct_eval)

text \<open>
  C9. For a constructed transaction, \<open>sign\<close> leaves the source object as it was,
  whatever the outcome. With two keys of 32 bytes and a signing primitive that returns
  recovery bits 0 or 1 and low-S signatures, it returns a new transaction: the source's
  fields with the two signature triples (and the options carrying the source's
  registry). A source constructed with \<open>freeze: false\<close> is not frozen, and neither is
  the signed transaction it produces; a source constructed with \<open>freeze: true\<close> or
  without the option is frozen, and so is the signed transaction.
\<close>

theorem sign_new_instance:
  assumes "PriorityETNIP1Transaction txData opts = Inr t"
  shows "fst (sign cr t privateKey priorityPrivateKey) = t \<and>
    tx_frozen t = freezeOption opts \<and>
    (tx_frozen t \<longleftrightarrow> o_freeze opts \<noteq> Some False) \<and>
    (length privateKey = 32 \<and> length priorityKey = 32 \<and>
     secp256k1_sign cr (getMessageToSign cr t True) privateKey = Some (v, sg) \<and>
     secp256k1_sign cr (getMessageToSign cr t True) priorityKey = Some (pV, psg) \<and>
     v \<le> 1 \<and> pV \<le> 1 \<and>
     uint8ArrayToBigInt (take 32 (drop 32 sg)) \<le> SECP256K1_ORDER_DIV_2 \<and>
     uint8ArrayToBigInt (take 32 (drop 32 psg)) \<le> SECP256K1_ORDER_DIV_2 \<longrightarrow>
       (\<exists>t'. sign cr t privateKey (Some priorityKey) = (t, Inr t') \<and>
          t' = t\<lparr>tx_txOptions := opts\<lparr>o_common := Some (tx_common t)\<rparr>,
                  tx_v := Some v,
                  tx_r := Some (uint8ArrayToBigInt (take 32 sg)),
                  tx_s := Some (uint8ArrayToBigInt (take 32 (drop 32 sg))),
                  tx_pV := Some pV,
                  tx_pR := Some (uint8ArrayToBigInt (take 32 psg)),
                  tx_pS := Some (uint8ArrayToBigInt (take 32 (drop 32 psg)))\<rparr> \<and>
          isSigned t' \<and> tx_frozen t' = freezeOption opts \<and>
          (tx_frozen t' \<longleftrightarrow> o_freeze opts \<noteq> Some False)))"
proof (intro conjI impI)
  note fresh = constructor_fresh [OF assms]
  have no_hack: "tx_type t \<noteq> 0"
    using fresh by (simp add: TRANSACTION_TYPE_def)
  show "fst (sign cr t privateKey priorityPrivateKey) = t"
    using no_hack
    by (simp add: sign_def Let_def split: option.splits prod.splits sum.splits)
  show frozen: "tx_frozen t = freezeOption opts"
    using fresh by simp
  have option: "freezeOption opts \<longleftrightarrow> o_freeze opts \<noteq> Some False"
    by (cases "o_freeze opts") (simp_all add: freezeOption_def)
  show frozen_option: "tx_frozen t \<longleftrightarrow> o_freeze opts \<noteq> Some False"
    using frozen option by simp
  assume a: "length privateKey = 32 \<and> length priorityKey = 32 \<and>
     secp256k1_sign cr (getMessageToSign cr t True) privateKey = Some (v, sg) \<and>
     secp256k1_sign cr (getMessageToSign cr t True) priorityKey = Some (pV, psg) \<and>
     v \<le> 1 \<and> pV \<le> 1 \<and>
     uint8ArrayToBigInt (take 32 (drop 32 sg)) \<le> SECP256K1_ORDER_DIV_2 \<and>
     uint8ArrayToBigInt (take 32 (drop 32 psg)) \<le> SECP256K1_ORDER_DIV_2"
  let ?t' = "t\<lparr>tx_txOptions := opts\<lparr>o_common := Some (tx_common t)\<rparr>,
                  tx_v := Some v,
                  tx_r := Some (uint8ArrayToBigInt (take 32 sg)),
                  tx_s := Some (uint8ArrayToBigInt (take 32 (drop 32 sg))),
                  tx_pV := Some pV,
                  tx_pR := Some (uint8ArrayToBigInt (take 32 psg)),
                  tx_pS := Some (uint8ArrayToBigInt (take 32 (drop 32 psg)))\<rparr>"
  have ps: "processSignatures t (v + 27) (take 32 sg) (take 32 (drop 32 sg))
      (pV + 27) (take 32 psg) (take 32 (drop 32 psg)) = Inr ?t'"
    using a by (intro processSignatures_constructed [OF assms] uint8ArrayToBigInt_take32)
      simp_all
  have e1: "ecsign cr (getMessageToSign cr t True) privateKey =
      Some (v + 27, take 32 sg, take 32 (drop 32 sg))"
    using a by (simp add: ecsign_def)
  have e2: "ecsign cr (getMessageToSign cr t True) priorityKey =
      Some (pV + 27, take 32 psg, take 32 (drop 32 psg))"
    using a by (simp add: ecsign_def)
  have "sign cr t privateKey (Some priorityKey) = (t, Inr ?t')"
    using a no_hack by (simp add: sign_def Let_def e1 e2 ps)
  moreover have "isSigned ?t'"
    by (simp add: isSigned_def)
  moreover have "tx_frozen ?t' = freezeOption opts"
    using frozen by simp
  moreover have "tx_frozen ?t' \<longleftrightarrow> o_freeze opts \<noteq> Some False"
    using frozen_option by simp
  ultimately show "\<exists>t'. sign cr t privateKey (Some priorityKey) = (t, Inr t') \<and>
          t' = ?t' \<and> isSigned t' \<and> tx_frozen t' = freezeOption opts \<and>
          (tx_frozen t' \<longleftrightarrow> o_freeze opts \<noteq> Some False)"
    by blast
qed

theorem sign_new_instance_witness:
  "sign stubCrypto unfrozenTx signingKey (Some signingKey) =
     (unfrozenTx,
      Inr (unfrozenTx\<lparr>tx_v := Some 0, tx_r := Some 1, tx_s := Some 2,
                       tx_pV := Some 0, tx_pR := Some 1, tx_pS := Some 2\<rparr>)) \<and>
   \<not> tx_frozen unfrozenTx \<and>
   fst (sign stubCrypto emptyTx signingKey (Some signingKey)) = emptyTx \<and>
   tx_frozen emptyTx \<and>
   (\<exists>t t'. PriorityETNIP1Transaction emptyTxData unfrozenOpts = Inr t \<and> \<not> tx_frozen t \<and>
      sign stubCrypto t signingKey (Some signingKey) = (t, Inr t') \<and>
      isSigned t' \<and> \<not> tx_frozen t') \<and>
   (\<exists>t t'. PriorityETNIP1Transaction emptyTxData testOpts = Inr t \<and> tx_frozen t \<and>
      sign stubCrypto t signingKey (Some signingKey) = (t, Inr t') \<and>
      isSigned t' \<and> tx_frozen t') \<and>
   (\<exists>t t'. PriorityETNIP1Transaction emptyTxData frozenOpts = Inr t \<and> tx_frozen t \<and>
      sign stubCrypto t signingKey (Some signingKey) = (t, Inr t') \<and>
      isSigned t' \<and> tx_frozen t')"
proof -
  have k: "length signingKey = 32"
    by (simp add: signingKey_def)
  have sg: "secp256k1_sign stubCrypto (getMessageToSign stubCrypto x True)
      signingKey = Some (0, stubSignature)" for x
    by (simp add: stubCrypto_def)
  have low: "uint8ArrayToBigInt (take 32 (drop 32 stubSignature)) \<le> SECP256K1_ORDER_DIV_2"
    by (simp add: stubSignature_s SECP256K1_ORDER_DIV_2_def)
  have o: "unfrozenOpts\<lparr>o_common := Some (tx_common unfrozenTx)\<rparr> = unfrozenOpts"
    by (simp add: unfrozenOpts_def unfrozenTx_def emptyTx_def upfrontCostTx_def)
  have f: "o_freeze unfrozenOpts = Some False" "o_freeze testOpts = None"
    "o_freeze frozenOpts = Some True"
    by (simp_all add: unfrozenOpts_def testOpts_def frozenOpts_def)
  have hyp: "length signingKey = 32 \<and> length signingKey = 32 \<and>
     secp256k1_sign stubCrypto (getMessageToSign stubCrypto x True) signingKey =
       Some (0, stubSignature) \<and>
     secp256k1_sign stubCrypto (getMessageToSign stubCrypto x True) signingKey =
       Some (0, stubSignature) \<and>
     (0::nat) \<le> 1 \<and> (0::nat) \<le> 1 \<and>
     uint8ArrayToBigInt (take 32 (drop 32 stubSignature)) \<le> SECP256K1_ORDER_DIV_2 \<and>
     uint8ArrayToBigInt (take 32 (drop 32 stubSignature)) \<le> SECP256K1_ORDER_DIV_2" for x
    using k sg low by simp
  note unfrozen = sign_new_instance [OF unfrozen_constructed,
      of stubCrypto signingKey "Some signingKey" signingKey 0 stubSignature 0 stubSignature]
  note default = sign_new_instance [OF emptyTxData_constructed,
      of stubCrypto signingKey "Some signingKey" signingKey 0 stubSignature 0 stubSignature]
  note frozen = sign_new_instance [OF frozen_constructed,
      of stubCrypto signingKey "Some signingKey" signingKey 0 stubSignature 0 stubSignature]
  from unfrozen hyp [of unfrozenTx]
  have u1: "sign stubCrypto unfrozenTx signingKey (Some signingKey) =
     (unfrozenTx,
      Inr (unfrozenTx\<lparr>tx_txOptions := unfrozenOpts\<lparr>o_common := Some (tx_common unfrozenTx)\<rparr>,
             tx_v := Some 0, tx_r := Some (uint8ArrayToBigInt (take 32 stubSignature)),
             tx_s := Some (uint8ArrayToBigInt (take 32 (drop 32 stubSignature))),
             tx_pV := Some 0, tx_pR := Some (uint8ArrayToBigInt (take 32 stubSignature)),
             tx_pS := Some (uint8ArrayToBigInt (take 32 (drop 32 stubSignature)))\<rparr>))"
    by blast
  from unfrozen
  have u2: "tx_frozen unfrozenTx \<longleftrightarrow> o_freeze unfrozenOpts \<noteq> Some False"
    by blast
  have u3: "unfrozenTx\<lparr>tx_txOptions := unfrozenOpts\<rparr> = unfrozenTx"
    by (simp add: unfrozenTx_def)
  from unfrozen hyp [of unfrozenTx]
  have u4: "\<exists>t'. sign stubCrypto unfrozenTx signingKey (Some signingKey) = (unfrozenTx, Inr t') \<and>
      isSigned t' \<and> (tx_frozen t' \<longleftrightarrow> o_freeze unfrozenOpts \<noteq> Some False)"
    by blast
  from default hyp [of emptyTx]
  have d1: "fst (sign stubCrypto emptyTx signingKey (Some signingKey)) = emptyTx"
    and d2: "tx_frozen emptyTx \<longleftrightarrow> o_freeze testOpts \<noteq> Some False"
    and d4: "\<exists>t'. sign stubCrypto emptyTx signingKey (Some signingKey) = (emptyTx, Inr t') \<and>
      isSigned t' \<and> (tx_frozen t' \<longleftrightarrow> o_freeze testOpts \<noteq> Some False)"
    by blast+
  from frozen hyp [of frozenTx]
  have z2: "tx_frozen frozenTx \<longleftrightarrow> o_freeze frozenOpts \<noteq> Some False"
    and z4: "\<exists>t'. sign stubCrypto frozenTx signingKey (Some signingKey) = (frozenTx, Inr t') \<and>
      isSigned t' \<and> (tx_frozen t' \<longleftrightarrow> o_freeze frozenOpts \<noteq> Some False)"
    by blast+
  have a: "sign stubCrypto unfrozenTx signingKey (Some signingKey) =
     (unfrozenTx,
      Inr (unfrozenTx\<lparr>tx_v := Some 0, tx_r := Some 1, tx_s := Some 2,
                       tx_pV := Some 0, tx_pR := Some 1, tx_pS := Some 2\<rparr>))"
    using u1 u3 by (simp add: o stubSignature_r stubSignature_s)
  have b: "\<not> tx_frozen unfrozenTx"
    using u2 f by simp
  have c: "tx_frozen emptyTx"
    using d2 f by simp
  have d: "\<exists>t t'. PriorityETNIP1Transaction emptyTxData unfrozenOpts = Inr t \<and> \<not> tx_frozen t \<and>
      sign stubCrypto t signingKey (Some signingKey) = (t, Inr t') \<and>
      isSigned t' \<and> \<not> tx_frozen t'"
    using unfrozen_constructed b u4 f by auto
  have e: "\<exists>t t'. PriorityETNIP1Transaction emptyTxData testOpts = Inr t \<and> tx_frozen t \<and>
      sign stubCrypto t signingKey (Some signingKey) = (t, Inr t') \<and>
      isSigned t' \<and> tx_frozen t'"
    using emptyTxData_constructed c d4 f by auto
  have g: "\<exists>t t'. PriorityETNIP1Transaction emptyTxData frozenOpts = Inr t \<and> tx_frozen t \<and>
      sign stubCrypto t signingKey (Some signingKey) = (t, Inr t') \<and>
      isSigned t' \<and> tx_frozen t'"
    using frozen_constructed z2 z4 f by auto
  from a b d1 c d e g show ?thesis
    by simp
qed

subsection \<open>Decoding and the secondary signature\<close>

lemma unpadded_hd: "n \<noteq> 0 \<Longrightarrow> hd (bigIntToUnpaddedUint8Array n) \<noteq> 0"
proof (induction n rule: bigIntToUnpaddedUint8Array.induct)
  case (1 n)
  have eq: "bigIntToUnpaddedUint8Array n =
      bigIntToUnpaddedUint8Array (n div 256) @ [of_nat (n mod 256)]"
    using 1(2) by (subst bigIntToUnpaddedUint8Array.simps) simp
  show ?case
  proof (cases "n div 256 = 0")
    case True
    then have "n < 256"
      by (simp add: div_eq_0_iff)
    then have "unat (of_nat n :: byte) = n"
      by (simp add: unat_byte_of_nat)
    with 1(2) have "(of_nat n :: byte) \<noteq> 0"
      by auto
    with True \<open>n < 256\<close> show ?thesis
      by (simp add: eq)
  next
    case False
    with 1 unpadded_nonempty [OF False] show ?thesis
      by (simp add: eq)
  qed
qed

lemma unpadded_length: "n < 256 ^ k \<Longrightarrow> length (bigIntToUnpaddedUint8Array n) \<le> k"
proof (induction k arbitrary: n)
  case 0
  then show ?case
    by simp
next
  case (Suc k)
  show ?case
  proof (cases "n = 0")
    case True
    then show ?thesis
      by simp
  next
    case False
    have "n div 256 < 256 ^ k"
      using Suc.prems by (simp add: less_mult_imp_div_less mult.commute)
    from Suc.IH [OF this] False show ?thesis
      by (subst bigIntToUnpaddedUint8Array.simps) simp
  qed
qed

lemma decodeLength_unpadded:
  "n \<noteq> 0 \<Longrightarrow> decodeLength (bigIntToUnpaddedUint8Array n) = Some n"
  using unpadded_nonempty [of n] unpadded_hd [of n] uint8ArrayToBigInt_unpadded [of n]
  by (cases "bigIntToUnpaddedUint8Array n") auto

lemma unat_byte_small: "n < 256 \<Longrightarrow> unat (of_nat n :: byte) = n"
  by (simp add: unat_byte_of_nat)

lemma encodeLength_nonempty: "encodeLength len offset \<noteq> []"
  by (simp add: encodeLength_def Let_def)

lemma rlp_encode_nonempty: "rlp_encode x \<noteq> []"
  by (cases x) (auto simp: encodeLength_nonempty Let_def split: list.splits)

lemma length_bytes_le_encoding: "length bs \<le> length (rlp_encode (RBytes bs))"
  by (auto split: list.splits)

lemma encodeLength_long_bytes:
  assumes "56 \<le> len" "len < 2 ^ 64"
  shows "\<exists>lb. encodeLength len offset = of_nat (offset + 55 + length lb) # lb \<and>
     1 \<le> length lb \<and> length lb \<le> 8 \<and> decodeLength lb = Some len"
proof -
  let ?lb = "bigIntToUnpaddedUint8Array len"
  have "len < 256 ^ 8"
    using assms(2) by simp
  then have "length ?lb \<le> 8"
    by (rule unpadded_length)
  moreover have "?lb \<noteq> []"
    using assms(1) by (intro unpadded_nonempty) simp
  then have "1 \<le> length ?lb"
    by (cases ?lb) simp_all
  moreover have "decodeLength ?lb = Some len"
    using assms(1) by (intro decodeLength_unpadded) simp
  ultimately show ?thesis
    using assms(1) by (auto simp: encodeLength_def Let_def)
qed

lemma encodeLength_short_byte:
  assumes "len < 56" "offset \<le> 192"
  shows "\<exists>b. encodeLength len offset = [b] \<and> unat b = len + offset"
proof -
  have "unat (of_nat (len + offset) :: byte) = len + offset"
    using assms by (intro unat_byte_small) simp
  with assms(1) show ?thesis
    unfolding encodeLength_def by (intro exI [of _ "of_nat (len + offset)"]) simp
qed

lemma encodeLength_long_byte:
  assumes "56 \<le> len" "len < 2 ^ 64" "offset \<le> 192"
  shows "\<exists>b lb. encodeLength len offset = b # lb \<and> unat b = offset + 55 + length lb \<and>
     1 \<le> length lb \<and> length lb \<le> 8 \<and> decodeLength lb = Some len"
proof -
  from encodeLength_long_bytes [OF assms(1,2), of offset] obtain lb where
    e: "encodeLength len offset = of_nat (offset + 55 + length lb) # lb" and
    l: "1 \<le> length lb" "length lb \<le> 8" "decodeLength lb = Some len"
    by blast
  have "unat (of_nat (offset + 55 + length lb) :: byte) = offset + 55 + length lb"
    using l assms(3) by (intro unat_byte_small) simp
  with e l show ?thesis
    by blast
qed

lemma decode_short_string:
  assumes "unat b = length bs + 128" "length bs < 56" "\<And>c. bs = [c] \<Longrightarrow> 128 \<le> unat c"
  shows "rlp_decode_item (Suc fuel) (b # bs @ rest) = Some (RBytes bs, rest)"
proof -
  have "\<not> (length bs = 1 \<and> unat (hd (bs @ rest)) < 128)"
  proof
    assume a: "length bs = 1 \<and> unat (hd (bs @ rest)) < 128"
    then obtain c where "bs = [c]"
      by (cases bs) auto
    with a assms(3) [of c] show False
      by simp
  qed
  then show ?thesis
    using assms(1,2) by (auto simp: Let_def)
qed

lemma decode_long_string:
  assumes "unat b = 128 + 55 + length lb" "1 \<le> length lb" "length lb \<le> 8"
    "decodeLength lb = Some (length bs)" "56 \<le> length bs"
  shows "rlp_decode_item (Suc fuel) (b # lb @ bs @ rest) = Some (RBytes bs, rest)"
  using assms by (auto simp: Let_def)

lemma decode_string:
  assumes "length bs < 2 ^ 64"
  shows "rlp_decode_item (Suc fuel) (rlp_encode (RBytes bs) @ rest) = Some (RBytes bs, rest)"
proof (cases "\<exists>c. bs = [c] \<and> unat c < 128")
  case True
  then show ?thesis
    by (auto simp: Let_def)
next
  case False
  then have single: "\<And>c. bs = [c] \<Longrightarrow> 128 \<le> unat c"
    by auto
  have enc: "rlp_encode (RBytes bs) = encodeLength (length bs) 128 @ bs"
    using False by (auto split: list.splits)
  show ?thesis
  proof (cases "length bs < 56")
    case True
    from encodeLength_short_byte [OF True, of 128] obtain b where
      b: "encodeLength (length bs) 128 = [b]" "unat b = length bs + 128"
      by auto
    from decode_short_string [OF b(2) True single, of fuel rest] show ?thesis
      unfolding enc b(1) by (simp del: rlp_decode_item.simps)
  next
    case False
    then have "56 \<le> length bs"
      by simp
    from encodeLength_long_byte [OF this assms, of 128] obtain b lb where
      b: "encodeLength (length bs) 128 = b # lb" "unat b = 128 + 55 + length lb"
        "1 \<le> length lb" "length lb \<le> 8" "decodeLength lb = Some (length bs)"
      by auto
    from decode_long_string [OF b(2-5) \<open>56 \<le> length bs\<close>, of fuel rest] show ?thesis
      unfolding enc b(1) by (simp del: rlp_decode_item.simps)
  qed
qed

lemma decode_short_list:
  assumes "unat b = length p + 192" "length p < 56" "rlp_decode_items fuel p = Some xs"
  shows "rlp_decode_item (Suc fuel) (b # p @ rest) = Some (RList xs, rest)"
  using assms by (simp add: Let_def)

lemma decode_long_list:
  assumes "unat b = 192 + 55 + length lb" "1 \<le> length lb" "length lb \<le> 8"
    "decodeLength lb = Some (length p)" "56 \<le> length p"
    "rlp_decode_items fuel p = Some xs"
  shows "rlp_decode_item (Suc fuel) (b # lb @ p @ rest) = Some (RList xs, rest)"
  using assms by (auto simp: Let_def)

lemma decode_list:
  assumes "length p < 2 ^ 64" "rlp_decode_items fuel p = Some xs"
  shows "rlp_decode_item (Suc fuel) (encodeLength (length p) 192 @ p @ rest) =
     Some (RList xs, rest)"
proof (cases "length p < 56")
  case True
  from encodeLength_short_byte [OF True, of 192] obtain b where
    b: "encodeLength (length p) 192 = [b]" "unat b = length p + 192"
    by auto
  from decode_short_list [OF b(2) True assms(2), of rest] show ?thesis
    unfolding b(1) by (simp del: rlp_decode_item.simps)
next
  case False
  then have "56 \<le> length p"
    by simp
  from encodeLength_long_byte [OF this assms(1), of 192] obtain b lb where
    b: "encodeLength (length p) 192 = b # lb" "unat b = 192 + 55 + length lb"
      "1 \<le> length lb" "length lb \<le> 8" "decodeLength lb = Some (length p)"
    by auto
  from decode_long_list [OF b(2-5) \<open>56 \<le> length p\<close> assms(2), of rest] show ?thesis
    unfolding b(1) by (simp del: rlp_decode_item.simps)
qed

lemma decode_items_encoded:
  assumes item: "\<And>x fuel rest. x \<in> set xs \<Longrightarrow> length (rlp_encode x) < 2 ^ 64 \<Longrightarrow>
      2 * length (rlp_encode x) \<le> fuel \<Longrightarrow>
      rlp_decode_item fuel (rlp_encode x @ rest) = Some (x, rest)"
  shows "set ys \<subseteq> set xs \<Longrightarrow> length (concat (map rlp_encode ys)) < 2 ^ 64 \<Longrightarrow>
     2 * length (concat (map rlp_encode ys)) + 1 \<le> fuel \<Longrightarrow>
     rlp_decode_items fuel (concat (map rlp_encode ys)) = Some ys"
proof (induction ys arbitrary: fuel)
  case Nil
  then obtain g where "fuel = Suc g"
    by (cases fuel) simp_all
  then show ?case
    by simp
next
  case (Cons y ys)
  let ?e = "rlp_encode y"
  let ?r = "concat (map rlp_encode ys)"
  from Cons.prems(3) obtain g where g: "fuel = Suc g"
    by (cases fuel) simp_all
  have ne: "1 \<le> length ?e"
    using rlp_encode_nonempty [of y] by (cases ?e) simp_all
  have bound: "2 * length ?e + 2 * length ?r \<le> g"
    using Cons.prems(3) g by simp
  have "rlp_decode_item g (?e @ ?r) = Some (y, ?r)"
    using Cons.prems(1,2) bound by (intro item) simp_all
  moreover have "rlp_decode_items g ?r = Some ys"
    using Cons.prems(1,2) bound ne by (intro Cons.IH) simp_all
  ultimately show ?case
    using rlp_encode_nonempty [of y] by (simp add: g)
qed

lemma decode_item_encoded:
  "length (rlp_encode x) < 2 ^ 64 \<Longrightarrow> 2 * length (rlp_encode x) \<le> fuel \<Longrightarrow>
   rlp_decode_item fuel (rlp_encode x @ rest) = Some (x, rest)"
proof (induction x arbitrary: fuel rest)
  case (RBytes bs)
  have "1 \<le> length (rlp_encode (RBytes bs))"
    using rlp_encode_nonempty [of "RBytes bs"] by (cases "rlp_encode (RBytes bs)") simp_all
  with RBytes.prems(2) obtain g where g: "fuel = Suc g"
    by (cases fuel) simp_all
  have "length bs < 2 ^ 64"
    using length_bytes_le_encoding [of bs] RBytes.prems(1) by simp
  then show ?case
    unfolding g by (rule decode_string)
next
  case (RList xs)
  let ?p = "concat (map rlp_encode xs)"
  have enc: "rlp_encode (RList xs) = encodeLength (length ?p) 192 @ ?p"
    by (simp add: Let_def)
  have pre: "1 \<le> length (encodeLength (length ?p) 192)"
    using encodeLength_nonempty [of "length ?p" 192]
    by (cases "encodeLength (length ?p) 192") simp_all
  with RList.prems(2) obtain g where g: "fuel = Suc g"
    unfolding enc by (cases fuel) simp_all
  have len: "length ?p < 2 ^ 64"
    using RList.prems(1) unfolding enc by simp
  have fuel: "2 * length ?p + 1 \<le> g"
    using RList.prems(2) pre unfolding enc g by simp
  have "rlp_decode_items g ?p = Some xs"
    by (rule decode_items_encoded [where xs = xs]) (use RList.IH len fuel in simp_all)
  from decode_list [OF len this, of rest] show ?case
    unfolding g enc by simp
qed

lemma rlp_decode_encode:
  "length (rlp_encode x) < 2 ^ 64 \<Longrightarrow> rlp_decode (rlp_encode x) = Some x"
  using decode_item_encoded [of x "2 * length (rlp_encode x)" "[]"] rlp_encode_nonempty [of x]
  by (simp add: rlp_decode_def)

lemma serialize_encoding:
  "serialize t = TRANSACTION_TYPE_UINT8ARRAY @ rlp_encode (RList (raw t)) \<and>
   length TRANSACTION_TYPE_UINT8ARRAY = 1"
  by (simp add: serialize_def TRANSACTION_TYPE_UINT8ARRAY_def)

lemma fromSerializedTx_encoded:
  assumes "length (TRANSACTION_TYPE_UINT8ARRAY @ rlp_encode (RList values)) < 2 ^ 64"
  shows "fromSerializedTx (TRANSACTION_TYPE_UINT8ARRAY @ rlp_encode (RList values)) opts =
     fromValuesArray values opts"
proof -
  have "length (rlp_encode (RList values)) < 2 ^ 64"
    using assms by simp
  from rlp_decode_encode [OF this] show ?thesis
    unfolding fromSerializedTx_def
    by (simp add: TRANSACTION_TYPE_UINT8ARRAY_def del: rlp_encode.simps)
qed

lemma fromSerializedTx_serialize:
  "length (serialize t) < 2 ^ 64 \<Longrightarrow>
   fromSerializedTx (serialize t) opts = fromValuesArray (raw t) opts"
  unfolding serialize_def by (rule fromSerializedTx_encoded)

lemma fromSerializedTx_message:
  "length (getMessageToSign cr t False) < 2 ^ 64 \<Longrightarrow>
   fromSerializedTx (getMessageToSign cr t False) opts = fromValuesArray (take 9 (raw t)) opts"
  unfolding getMessageToSign_def Let_def if_False by (rule fromSerializedTx_encoded)

lemma serialize_emptyTx: "serialize emptyTx = unsignedSerialization"
  by (simp add: serialize_def raw_emptyTx unsignedValues_def unsignedSerialization_def
      encodeLength_short TRANSACTION_TYPE_UINT8ARRAY_def TRANSACTION_TYPE_def)

lemma message_emptyTx: "getMessageToSign cr emptyTx False = unsignedMessage"
  by (simp add: getMessageToSign_def raw_emptyTx unsignedValues_def unsignedMessage_def
      encodeLength_short TRANSACTION_TYPE_UINT8ARRAY_def TRANSACTION_TYPE_def)

lemma rlp_decode_item_fuel:
  "0 < fuel \<Longrightarrow> rlp_decode_item fuel (b # bs) = rlp_decode_item (Suc (fuel - 1)) (b # bs)"
  by simp

lemma rlp_decode_items_fuel:
  "0 < fuel \<Longrightarrow> rlp_decode_items fuel input = rlp_decode_items (Suc (fuel - 1)) input"
  by simp

lemma rlp_decode_item_eval:
  "rlp_decode_item (numeral k) (b # bs) =
     (let firstByte = unat b; fuel = numeral k - 1 in
      if firstByte \<le> 0x7f then Some (RBytes [b], bs)
      else if firstByte \<le> 0xb7 then
        (let len = firstByte - 0x80 in
         if length bs < len then None
         else if len = 1 \<and> unat (hd bs) < 0x80 then None
         else Some (RBytes (take len bs), drop len bs))
      else if firstByte \<le> 0xbf then
        (let llength = firstByte - 0xb7 in
         if length bs < llength then None
         else case decodeLength (take llength bs) of
                None \<Rightarrow> None
              | Some len \<Rightarrow>
                  if len \<le> 55 \<or> length bs < llength + len then None
                  else Some (RBytes (take len (drop llength bs)), drop (llength + len) bs))
      else if firstByte \<le> 0xf7 then
        (let len = firstByte - 0xc0 in
         if length bs < len then None
         else case rlp_decode_items fuel (take len bs) of
                None \<Rightarrow> None
              | Some xs \<Rightarrow> Some (RList xs, drop len bs))
      else
        (let llength = firstByte - 0xf7 in
         if length bs < llength then None
         else case decodeLength (take llength bs) of
                None \<Rightarrow> None
              | Some len \<Rightarrow>
                  if len < 56 \<or> length bs < llength + len then None
                  else case rlp_decode_items fuel (take len (drop llength bs)) of
                         None \<Rightarrow> None
                       | Some xs \<Rightarrow> Some (RList xs, drop (llength + len) bs)))"
  by (subst rlp_decode_item_fuel) (simp_all only: rlp_decode_item.simps zero_less_numeral Let_def)

lemma rlp_decode_items_eval:
  "rlp_decode_items (numeral k) input =
     (if input = [] then Some []
      else case rlp_decode_item (numeral k - 1) input of
             None \<Rightarrow> None
           | Some (x, remainder) \<Rightarrow>
               (case rlp_decode_items (numeral k - 1) remainder of
                  None \<Rightarrow> None
                | Some xs \<Rightarrow> Some (x # xs)))"
  by (subst rlp_decode_items_fuel) (simp_all only: rlp_decode_items.simps zero_less_numeral)

lemma unsignedSerialization_decoded:
  "rlp_decode (drop 1 unsignedSerialization) = Some (RList unsignedValues)"
  by (simp add: rlp_decode_def unsignedSerialization_def unsignedValues_def Let_def
      rlp_decode_item_eval rlp_decode_items_eval)

lemma unsignedMessage_decoded:
  "rlp_decode (drop 1 unsignedMessage) = Some (RList (take 9 unsignedValues))"
  by (simp add: rlp_decode_def unsignedMessage_def unsignedValues_def Let_def
      rlp_decode_item_eval rlp_decode_items_eval)

lemma valueAt_past_end: "length values \<le> i \<Longrightarrow> valueAt values i = Undef"
  by (simp add: valueAt_def)

lemma toUint8Array_Undef: "toUint8Array (emptyAs0x Undef) = Inr []"
  by (simp add: emptyAs0x_def)

lemma raw_length: "length (raw t) = 15"
  by (simp add: raw_def)

lemma raw_secondary:
  "raw t ! 12 = RBytes (optionalBigInt (tx_pV t)) \<and>
   raw t ! 13 = RBytes (optionalBigInt (tx_pR t)) \<and>
   raw t ! 14 = RBytes (optionalBigInt (tx_pS t))"
  by (simp add: raw_def)

text \<open>
  C10, as the code has it. For the constructor, a secondary signature component
  supplied as the empty byte string is stored as \<open>undefined\<close>, and the transaction is
  then not signed. For a values array of fifteen entries, an empty \<open>pR\<close> or \<open>pS\<close> is
  stored as \<open>undefined\<close> and the transaction is then not signed, while an empty \<open>pV\<close>
  is first converted to the integer 0 and stored as 0. A values array of nine entries
  has no secondary signature entries, and all three are stored as \<open>undefined\<close>. A
  serialized transaction is built from the values array it decodes to. So the
  transaction decoded from the serialized form of a transaction without secondary
  signature (its fifteen raw values) stores \<open>pV = 0\<close>, \<open>pR\<close> and \<open>pS\<close> \<open>undefined\<close>,
  and is not signed; the one decoded from an unsigned message of nine fields stores
  \<open>undefined\<close> for all three and is not signed. A byte array has fewer than \<open>2^64\<close>
  entries.
\<close>

theorem empty_secondary_signature:
  "(PriorityETNIP1Transaction txData opts = Inr t \<longrightarrow>
      (d_pV txData = Bytes [] \<longrightarrow> tx_pV t = None) \<and>
      (d_pR txData = Bytes [] \<longrightarrow> tx_pR t = None) \<and>
      (d_pS txData = Bytes [] \<longrightarrow> tx_pS t = None) \<and>
      (d_pV txData = Bytes [] \<or> d_pR txData = Bytes [] \<or> d_pS txData = Bytes []
         \<longrightarrow> \<not> isSigned t)) \<and>
   (length values = 15 \<and> fromValuesArray values opts = Inr t' \<longrightarrow>
      (values ! 12 = RBytes [] \<longrightarrow> tx_pV t' = Some 0) \<and>
      (values ! 13 = RBytes [] \<longrightarrow> tx_pR t' = None) \<and>
      (values ! 14 = RBytes [] \<longrightarrow> tx_pS t' = None) \<and>
      (values ! 13 = RBytes [] \<or> values ! 14 = RBytes [] \<longrightarrow> \<not> isSigned t')) \<and>
   (length values = 9 \<and> fromValuesArray values opts = Inr t' \<longrightarrow>
      tx_pV t' = None \<and> tx_pR t' = None \<and> tx_pS t' = None \<and> \<not> isSigned t') \<and>
   (take 1 serialized = [0x40] \<and> rlp_decode (drop 1 serialized) = Some (RList values) \<longrightarrow>
      fromSerializedTx serialized opts = fromValuesArray values opts) \<and>
   (tx_pV u = None \<and> tx_pR u = None \<and> tx_pS u = None \<and>
    fromValuesArray (raw u) opts = Inr u' \<longrightarrow>
      tx_pV u' = Some 0 \<and> tx_pR u' = None \<and> tx_pS u' = None \<and> \<not> isSigned u') \<and>
   (length (serialize u) < 2 ^ 64 \<longrightarrow>
      fromSerializedTx (serialize u) opts = fromValuesArray (raw u) opts) \<and>
   (length (serialize u) < 2 ^ 64 \<and>
    tx_pV u = None \<and> tx_pR u = None \<and> tx_pS u = None \<and>
    fromSerializedTx (serialize u) opts = Inr u' \<longrightarrow>
      tx_pV u' = Some 0 \<and> tx_pR u' = None \<and> tx_pS u' = None \<and> \<not> isSigned u') \<and>
   (length (getMessageToSign cr u False) < 2 ^ 64 \<and>
    fromSerializedTx (getMessageToSign cr u False) opts = Inr u' \<longrightarrow>
      tx_pV u' = None \<and> tx_pR u' = None \<and> tx_pS u' = None \<and> \<not> isSigned u')"
proof -
  have constructed: "(d_pV txData = Bytes [] \<longrightarrow> tx_pV t = None) \<and>
      (d_pR txData = Bytes [] \<longrightarrow> tx_pR t = None) \<and>
      (d_pS txData = Bytes [] \<longrightarrow> tx_pS t = None) \<and>
      (d_pV txData = Bytes [] \<or> d_pR txData = Bytes [] \<or> d_pS txData = Bytes []
         \<longrightarrow> \<not> isSigned t)"
    if c: "PriorityETNIP1Transaction txData opts = Inr t" for txData t
  proof -
    from constructor_secondary [OF c] obtain pvB prB psB where
      v: "toUint8Array (emptyAs0x (d_pV txData)) = Inr pvB" "tx_pV t = sigComponent pvB" and
      r: "toUint8Array (emptyAs0x (d_pR txData)) = Inr prB" "tx_pR t = sigComponent prB" and
      s: "toUint8Array (emptyAs0x (d_pS txData)) = Inr psB" "tx_pS t = sigComponent psB"
      by blast
    have pV_None: "tx_pV t = None" if "d_pV txData = Bytes []"
      using v that by (simp add: toUint8Array_empty_Bytes sigComponent_Nil)
    have pR_None: "tx_pR t = None" if "d_pR txData = Bytes []"
      using r that by (simp add: toUint8Array_empty_Bytes sigComponent_Nil)
    have pS_None: "tx_pS t = None" if "d_pS txData = Bytes []"
      using s that by (simp add: toUint8Array_empty_Bytes sigComponent_Nil)
    have "\<not> isSigned t"
      if "d_pV txData = Bytes [] \<or> d_pR txData = Bytes [] \<or> d_pS txData = Bytes []"
      using that pV_None pR_None pS_None by (auto simp: isSigned_iff)
    with pV_None pR_None pS_None show ?thesis
      by blast
  qed
  have fifteen: "(values ! 12 = RBytes [] \<longrightarrow> tx_pV t' = Some 0) \<and>
      (values ! 13 = RBytes [] \<longrightarrow> tx_pR t' = None) \<and>
      (values ! 14 = RBytes [] \<longrightarrow> tx_pS t' = None) \<and>
      (values ! 13 = RBytes [] \<or> values ! 14 = RBytes [] \<longrightarrow> \<not> isSigned t')"
    if a: "length values = 15 \<and> fromValuesArray values opts = Inr t'" for "values" t'
  proof -
    from a have len: "length values = 15"
      by simp
    with a have "fromValuesArrayFields values opts = Inr t'"
      by (simp add: fromValuesArray_def)
    from fromValuesArrayFields_Inr [OF this] obtain txData where
      c: "PriorityETNIP1Transaction txData opts = Inr t'" and
      d: "d_pV txData = toBigIntOrUndefined (valueAt values 12)"
        "d_pR txData = valueAt values 13" "d_pS txData = valueAt values 14"
      by blast
    from constructor_secondary [OF c] obtain pvB prB psB where
      v: "toUint8Array (emptyAs0x (d_pV txData)) = Inr pvB" "tx_pV t' = sigComponent pvB" and
      r: "toUint8Array (emptyAs0x (d_pR txData)) = Inr prB" "tx_pR t' = sigComponent prB" and
      s: "toUint8Array (emptyAs0x (d_pS txData)) = Inr psB" "tx_pS t' = sigComponent psB"
      by blast
    have pv: "d_pV txData = BigInt 0" if "values ! 12 = RBytes []"
      using d(1) len that by (simp add: valueAt_def uint8ArrayToBigInt_def)
    have pr: "d_pR txData = Bytes []" if "values ! 13 = RBytes []"
      using d(2) len that by (simp add: valueAt_def)
    have ps: "d_pS txData = Bytes []" if "values ! 14 = RBytes []"
      using d(3) len that by (simp add: valueAt_def)
    have pV_zero: "tx_pV t' = Some 0" if "values ! 12 = RBytes []"
      using v pv [OF that] by (auto simp: toUint8Array_BigInt_0 sigComponent_zero)
    have pR_None: "tx_pR t' = None" if "values ! 13 = RBytes []"
      using r pr [OF that] by (simp add: toUint8Array_empty_Bytes sigComponent_Nil)
    have pS_None: "tx_pS t' = None" if "values ! 14 = RBytes []"
      using s ps [OF that] by (simp add: toUint8Array_empty_Bytes sigComponent_Nil)
    have "\<not> isSigned t'" if "values ! 13 = RBytes [] \<or> values ! 14 = RBytes []"
      using that pR_None pS_None by (auto simp: isSigned_iff)
    with pV_zero pR_None pS_None show ?thesis
      by blast
  qed
  have nine: "tx_pV t' = None \<and> tx_pR t' = None \<and> tx_pS t' = None \<and> \<not> isSigned t'"
    if a: "length values = 9 \<and> fromValuesArray values opts = Inr t'" for "values" t'
  proof -
    from a have len: "length values = 9"
      by simp
    with a have "fromValuesArrayFields values opts = Inr t'"
      by (simp add: fromValuesArray_def)
    from fromValuesArrayFields_Inr [OF this] obtain txData where
      c: "PriorityETNIP1Transaction txData opts = Inr t'" and
      d: "d_pV txData = toBigIntOrUndefined (valueAt values 12)"
        "d_pR txData = valueAt values 13" "d_pS txData = valueAt values 14"
      by blast
    have e: "d_pV txData = Undef" "d_pR txData = Undef" "d_pS txData = Undef"
      using d len by (simp_all add: valueAt_past_end)
    from constructor_secondary [OF c] e
    have "tx_pV t' = None \<and> tx_pR t' = None \<and> tx_pS t' = None"
      by (auto simp: toUint8Array_Undef sigComponent_Nil)
    then show ?thesis
      by (simp add: isSigned_iff)
  qed
  have raw_values: "tx_pV u' = Some 0 \<and> tx_pR u' = None \<and> tx_pS u' = None \<and> \<not> isSigned u'"
    if a: "tx_pV u = None \<and> tx_pR u = None \<and> tx_pS u = None \<and>
      fromValuesArray (raw u) opts = Inr u'" for u'
  proof -
    have e: "raw u ! 12 = RBytes []" "raw u ! 13 = RBytes []" "raw u ! 14 = RBytes []"
      using a by (simp_all add: raw_secondary optionalBigInt_def)
    have "length (raw u) = 15 \<and> fromValuesArray (raw u) opts = Inr u'"
      using a by (simp add: raw_length)
    from fifteen [OF this] e show ?thesis
      by blast
  qed
  have decoded: "fromSerializedTx (serialize u) opts = fromValuesArray (raw u) opts"
    if "length (serialize u) < 2 ^ 64"
    using that by (rule fromSerializedTx_serialize)
  have message: "tx_pV u' = None \<and> tx_pR u' = None \<and> tx_pS u' = None \<and> \<not> isSigned u'"
    if a: "length (getMessageToSign cr u False) < 2 ^ 64 \<and>
      fromSerializedTx (getMessageToSign cr u False) opts = Inr u'" for u'
  proof -
    from a have len: "length (getMessageToSign cr u False) < 2 ^ 64"
      and dec: "fromSerializedTx (getMessageToSign cr u False) opts = Inr u'"
      by simp_all
    from fromSerializedTx_message [OF len, of opts] dec
    have "fromValuesArray (take 9 (raw u)) opts = Inr u'"
      by simp
    then have "length (take 9 (raw u)) = 9 \<and> fromValuesArray (take 9 (raw u)) opts = Inr u'"
      by (simp add: raw_length)
    then show ?thesis
      by (rule nine)
  qed
  have serialized: "tx_pV u' = Some 0 \<and> tx_pR u' = None \<and> tx_pS u' = None \<and> \<not> isSigned u'"
    if a: "length (serialize u) < 2 ^ 64 \<and>
      tx_pV u = None \<and> tx_pR u = None \<and> tx_pS u = None \<and>
      fromSerializedTx (serialize u) opts = Inr u'" for u'
  proof -
    from a have "length (serialize u) < 2 ^ 64"
      by simp
    from decoded [OF this] a
    have "tx_pV u = None \<and> tx_pR u = None \<and> tx_pS u = None \<and>
      fromValuesArray (raw u) opts = Inr u'"
      by simp
    then show ?thesis
      by (rule raw_values)
  qed
  have list: "fromSerializedTx serialized opts = fromValuesArray values opts"
    if "take 1 serialized = [0x40] \<and>
      rlp_decode (drop 1 serialized) = Some (RList values)"
    using that
    by (simp add: fromSerializedTx_def TRANSACTION_TYPE_UINT8ARRAY_def TRANSACTION_TYPE_def)
  from constructed [of txData t] fifteen [of "values" t'] nine [of "values" t'] list
    raw_values [of u'] decoded serialized [of u'] message [of u']
  show ?thesis
    by blast
qed

theorem empty_secondary_signature_witness:
  "PriorityETNIP1Transaction emptySecondaryData testOpts = Inr emptyTx \<and>
   tx_pV emptyTx = None \<and> tx_pR emptyTx = None \<and> tx_pS emptyTx = None \<and>
   \<not> isSigned emptyTx \<and>
   fromValuesArray unsignedValues testOpts = Inr decodedUnsignedTx \<and>
   tx_pV decodedUnsignedTx = Some 0 \<and> tx_pR decodedUnsignedTx = None \<and>
   tx_pS decodedUnsignedTx = None \<and> \<not> isSigned decodedUnsignedTx \<and>
   fromValuesArray (take 9 unsignedValues) testOpts = Inr emptyTx \<and>
   fromValuesArray (raw emptyTx) testOpts = Inr decodedUnsignedTx \<and>
   serialize emptyTx = unsignedSerialization \<and>
   fromSerializedTx unsignedSerialization testOpts = Inr decodedUnsignedTx \<and>
   getMessageToSign stubCrypto emptyTx False = unsignedMessage \<and>
   fromSerializedTx unsignedMessage testOpts = Inr emptyTx"
proof -
  have d: "d_pV emptySecondaryData = Bytes []" "d_pR emptySecondaryData = Bytes []"
    "d_pS emptySecondaryData = Bytes []"
    by (simp_all add: emptySecondaryData_def emptyTxData_def)
  have v: "length unsignedValues = 15" "unsignedValues ! 12 = RBytes []"
    "unsignedValues ! 13 = RBytes []" "unsignedValues ! 14 = RBytes []"
    by (simp_all add: unsignedValues_def)
  have n: "length (take 9 unsignedValues) = 9"
    by (simp add: unsignedValues_def)
  have e: "tx_pV emptyTx = None \<and> tx_pR emptyTx = None \<and> tx_pS emptyTx = None"
    by (simp add: emptyTx_def upfrontCostTx_def)
  have r: "fromValuesArray (raw emptyTx) testOpts = Inr decodedUnsignedTx"
    using raw_emptyTx unsignedValues_decoded by simp
  have l: "length (serialize emptyTx) < 2 ^ 64"
    "length (getMessageToSign stubCrypto emptyTx False) < 2 ^ 64"
    by (simp_all add: serialize_emptyTx message_emptyTx unsignedSerialization_def
        unsignedMessage_def)
  have s: "fromSerializedTx unsignedSerialization testOpts = Inr decodedUnsignedTx"
    unfolding fromSerializedTx_def unsignedSerialization_decoded
    using unsignedValues_decoded
    by (simp add: unsignedSerialization_def TRANSACTION_TYPE_UINT8ARRAY_def
        TRANSACTION_TYPE_def)
  have m: "fromSerializedTx unsignedMessage testOpts = Inr emptyTx"
    unfolding fromSerializedTx_def unsignedMessage_decoded
    using nineValues_decoded
    by (simp add: unsignedMessage_def TRANSACTION_TYPE_UINT8ARRAY_def TRANSACTION_TYPE_def)
  have "tx_pV emptyTx = None \<and> tx_pR emptyTx = None \<and> tx_pS emptyTx = None \<and>
      \<not> isSigned emptyTx"
    using empty_secondary_signature [of emptySecondaryData testOpts emptyTx]
      emptySecondaryData_constructed d
    by blast
  moreover have "tx_pV decodedUnsignedTx = Some 0 \<and> tx_pR decodedUnsignedTx = None \<and>
      tx_pS decodedUnsignedTx = None \<and> \<not> isSigned decodedUnsignedTx"
    using empty_secondary_signature
      [of _ testOpts _ unsignedValues decodedUnsignedTx]
      unsignedValues_decoded v
    by blast
  moreover have "\<not> isSigned emptyTx"
    using empty_secondary_signature
      [of _ testOpts _ "take 9 unsignedValues" emptyTx]
      nineValues_decoded n
    by blast
  moreover have "\<not> isSigned decodedUnsignedTx"
    using empty_secondary_signature
      [of _ testOpts _ _ _ _ emptyTx decodedUnsignedTx] e r
    by blast
  moreover have "fromSerializedTx (serialize emptyTx) testOpts =
      fromValuesArray (raw emptyTx) testOpts"
    using empty_secondary_signature [of _ testOpts _ _ _ _ emptyTx] l(1)
    by blast
  moreover have "fromSerializedTx unsignedSerialization testOpts =
      fromValuesArray unsignedValues testOpts"
    using empty_secondary_signature
      [of _ testOpts _ unsignedValues _ unsignedSerialization]
      unsignedSerialization_decoded
    by (simp add: unsignedSerialization_def)
  moreover have "\<not> isSigned decodedUnsignedTx"
    using empty_secondary_signature
      [of _ testOpts _ _ _ _ emptyTx decodedUnsignedTx] e l(1) s serialize_emptyTx
    by simp
  moreover have "\<not> isSigned emptyTx"
    using empty_secondary_signature
      [of _ testOpts _ _ _ _ emptyTx emptyTx stubCrypto] l(2) m message_emptyTx
    by simp
  ultimately show ?thesis
    using emptySecondaryData_constructed unsignedValues_decoded nineValues_decoded r s m
      serialize_emptyTx message_emptyTx
    by simp
qed

text \<open>
  C10 as stated fails for \<open>pV\<close> in a values array: the fifteen raw values of an unsigned
  transaction, whose six signature entries are empty byte strings, decode to a
  transaction that stores 0, not \<open>undefined\<close>, for \<open>pV\<close>; so does its serialized form.
\<close>

theorem empty_secondary_signature_counterexample:
  "raw emptyTx = unsignedValues \<and>
   unsignedValues ! 12 = RBytes [] \<and>
   fromValuesArray unsignedValues testOpts = Inr decodedUnsignedTx \<and>
   tx_pV decodedUnsignedTx = Some 0 \<and>
   tx_pV decodedUnsignedTx \<noteq> None \<and>
   fromSerializedTx (serialize emptyTx) testOpts = Inr decodedUnsignedTx"
proof -
  have "fromSerializedTx (serialize emptyTx) testOpts = Inr decodedUnsignedTx"
    unfolding serialize_emptyTx fromSerializedTx_def unsignedSerialization_decoded
    using unsignedValues_decoded
    by (simp add: unsignedSerialization_def TRANSACTION_TYPE_UINT8ARRAY_def
        TRANSACTION_TYPE_def)
  then show ?thesis
    using raw_emptyTx unsignedValues_decoded
    by (simp add: decodedUnsignedTx_def unsignedValues_def)
qed

end
